theory Spec2Isabelle
  imports Complex_Main "HOL-Library.AList"
begin

section \<open>JavaScript numbers and values\<close>

text \<open>
  A JavaScript number is a finite double, an infinity or NaN. A finite double is
  represented by the real number it denotes: rounding, overflow to an infinity, underflow
  to zero and the sign of zero are not modelled (a zero divisor is read as +0). The
  special values follow IEEE 754, so that \<open>x || d\<close>, comparisons with NaN and
  arithmetic on infinities behave as in the source.
\<close>

datatype jsnum = Fin real | PInf | NInf | NaN

definition sgn_inf :: "real \<Rightarrow> jsnum" where
  "sgn_inf s = (if s = 0 then NaN else if 0 < s then PInf else NInf)"

fun jsign :: "jsnum \<Rightarrow> real" where
  "jsign (Fin x) = sgn x"
| "jsign PInf = 1"
| "jsign NInf = - 1"
| "jsign NaN = 0"

instantiation jsnum :: "{plus, minus, uminus, times, inverse, ord}"
begin

fun uminus_jsnum :: "jsnum \<Rightarrow> jsnum" where
  "uminus_jsnum (Fin x) = Fin (- x)"
| "uminus_jsnum PInf = NInf"
| "uminus_jsnum NInf = PInf"
| "uminus_jsnum NaN = NaN"

fun plus_jsnum :: "jsnum \<Rightarrow> jsnum \<Rightarrow> jsnum" where
  "plus_jsnum (Fin x) (Fin y) = Fin (x + y)"
| "plus_jsnum NaN b = NaN"
| "plus_jsnum a NaN = NaN"
| "plus_jsnum PInf NInf = NaN"
| "plus_jsnum NInf PInf = NaN"
| "plus_jsnum PInf b = PInf"
| "plus_jsnum a PInf = PInf"
| "plus_jsnum NInf b = NInf"
| "plus_jsnum a NInf = NInf"

definition minus_jsnum :: "jsnum \<Rightarrow> jsnum \<Rightarrow> jsnum" where
  "minus_jsnum (a::jsnum) b = a + (- b)"

fun times_jsnum :: "jsnum \<Rightarrow> jsnum \<Rightarrow> jsnum" where
  "times_jsnum (Fin x) (Fin y) = Fin (x * y)"
| "times_jsnum NaN b = NaN"
| "times_jsnum a NaN = NaN"
| "times_jsnum a b = sgn_inf (jsign a * jsign b)"

fun divide_jsnum :: "jsnum \<Rightarrow> jsnum \<Rightarrow> jsnum" where
  "divide_jsnum (Fin x) (Fin y) = (if y = 0 then sgn_inf x else Fin (x / y))"
| "divide_jsnum NaN b = NaN"
| "divide_jsnum a NaN = NaN"
| "divide_jsnum (Fin x) b = Fin 0"
| "divide_jsnum a (Fin y) = (if 0 \<le> y then a else - a)"
| "divide_jsnum a b = NaN"

definition inverse_jsnum :: "jsnum \<Rightarrow> jsnum" where
  "inverse_jsnum (a::jsnum) = divide (Fin 1) a"

fun less_jsnum :: "jsnum \<Rightarrow> jsnum \<Rightarrow> bool" where
  "less_jsnum (Fin x) (Fin y) = (x < y)"
| "less_jsnum NaN b = False"
| "less_jsnum a NaN = False"
| "less_jsnum a NInf = False"
| "less_jsnum PInf b = False"
| "less_jsnum a b = True"

definition less_eq_jsnum :: "jsnum \<Rightarrow> jsnum \<Rightarrow> bool" where
  "less_eq_jsnum a b = (a < b \<or> (a \<noteq> NaN \<and> a = b))"

instance ..

end

text \<open>Truthiness of a number, and \<open>x || d\<close> on numbers: 0 and NaN are falsy.\<close>

definition truthy :: "jsnum \<Rightarrow> bool" where
  "truthy x = (x \<noteq> NaN \<and> x \<noteq> Fin 0)"

definition jor :: "jsnum \<Rightarrow> jsnum \<Rightarrow> jsnum" where
  "jor x d = (if truthy x then x else d)"

fun Math_sin :: "jsnum \<Rightarrow> jsnum" where
  "Math_sin (Fin x) = Fin (sin x)"
| "Math_sin a = NaN"

fun Math_exp :: "jsnum \<Rightarrow> jsnum" where
  "Math_exp (Fin x) = Fin (exp x)"
| "Math_exp PInf = PInf"
| "Math_exp NInf = Fin 0"
| "Math_exp NaN = NaN"

fun Math_sqrt :: "jsnum \<Rightarrow> jsnum" where
  "Math_sqrt (Fin x) = (if x < 0 then NaN else Fin (sqrt x))"
| "Math_sqrt PInf = PInf"
| "Math_sqrt a = NaN"

text \<open>\<open>Math.pow(x, 2)\<close>, the only power the source takes.\<close>

fun Math_pow2 :: "jsnum \<Rightarrow> jsnum" where
  "Math_pow2 (Fin x) = Fin (x ^ 2)"
| "Math_pow2 NaN = NaN"
| "Math_pow2 a = PInf"

fun Math_abs :: "jsnum \<Rightarrow> jsnum" where
  "Math_abs (Fin x) = Fin \<bar>x\<bar>"
| "Math_abs NaN = NaN"
| "Math_abs a = PInf"

definition max2 :: "jsnum \<Rightarrow> jsnum \<Rightarrow> jsnum" where
  "max2 a b = (if a = NaN \<or> b = NaN then NaN else if a < b then b else a)"

text \<open>\<open>Math.max(...xs)\<close>: minus infinity on no arguments, NaN if any argument is NaN.\<close>

fun Math_max :: "jsnum list \<Rightarrow> jsnum" where
  "Math_max [] = NInf"
| "Math_max (x # xs) = max2 x (Math_max xs)"

text \<open>\<open>Number.isFinite\<close>\<close>

fun isFinite :: "jsnum \<Rightarrow> bool" where
  "isFinite (Fin x) = True"
| "isFinite a = False"

definition Math_PI :: jsnum where
  "Math_PI = Fin pi"

text \<open>
  The values a property can hold after \<open>JSON.parse\<close> (the spec's data model has strings
  and numbers; undefined is what reading an absent key gives).
\<close>

datatype jsval = JUndefined | JNull | JBool bool | JNum jsnum | JStr string

subsection \<open>The built-in parseFloat\<close>

text \<open>
  \<open>parseFloat\<close> is a built-in of the platform, not code of the repository. It converts
  its argument to a string, skips leading white space and reads the longest prefix that is
  a decimal literal (sign, digits, fraction, exponent) or a signed \<open>Infinity\<close>; it
  gives NaN when there is no such prefix. The value read is the exact decimal value.
  A string is the list of its code units, each below 256: the white space that can occur is
  tab, line feed, vertical tab, form feed, carriage return, space and the no-break space.
\<close>

definition isWhite :: "char \<Rightarrow> bool" where
  "isWhite c =
     (c \<in> set [CHR '' '', CHR 0x09, CHR 0x0A, CHR 0x0B, CHR 0x0C, CHR 0x0D, CHR 0xA0])"

definition isDigit :: "char \<Rightarrow> bool" where
  "isDigit c = (c \<in> set ''0123456789'')"

definition digitVal :: "char \<Rightarrow> nat" where
  "digitVal c = of_char c - 48"

definition natOfDigits :: "string \<Rightarrow> nat" where
  "natOfDigits ds = foldl (\<lambda>a c. 10 * a + digitVal c) 0 ds"

definition parseExponent :: "string \<Rightarrow> int" where
  "parseExponent s =
     (case s of
        e # t \<Rightarrow>
          (if e = CHR ''e'' \<or> e = CHR ''E'' then
             (case t of
                sg # u \<Rightarrow>
                  (if sg = CHR ''-'' then
                     (if takeWhile isDigit u = [] then 0 else - int (natOfDigits (takeWhile isDigit u)))
                   else if sg = CHR ''+'' then int (natOfDigits (takeWhile isDigit u))
                   else int (natOfDigits (takeWhile isDigit t)))
              | [] \<Rightarrow> 0)
           else 0)
      | [] \<Rightarrow> 0)"

definition parseUnsigned :: "string \<Rightarrow> jsnum" where
  "parseUnsigned s =
     (if take 8 s = ''Infinity'' then PInf
      else
        let ip = takeWhile isDigit s;
            r1 = dropWhile isDigit s;
            fp = (case r1 of c # t \<Rightarrow> (if c = CHR ''.'' then takeWhile isDigit t else []) | [] \<Rightarrow> []);
            r2 = (case r1 of c # t \<Rightarrow> (if c = CHR ''.'' then dropWhile isDigit t else r1) | [] \<Rightarrow> [])
        in if ip = [] \<and> fp = [] then NaN
           else Fin ((real (natOfDigits ip) + real (natOfDigits fp) / 10 ^ length fp)
                     * 10 powi parseExponent r2))"

definition parseFloatStr :: "string \<Rightarrow> jsnum" where
  "parseFloatStr s =
     (case dropWhile isWhite s of
        c # t \<Rightarrow>
          (if c = CHR ''-'' then - parseUnsigned t
           else if c = CHR ''+'' then parseUnsigned t
           else parseUnsigned (c # t))
      | [] \<Rightarrow> NaN)"

fun parseFloat :: "jsval \<Rightarrow> jsnum" where
  "parseFloat (JNum x) = x"
| "parseFloat (JStr s) = parseFloatStr s"
| "parseFloat v = NaN"

section \<open>The environment: clock, random source, exceptions\<close>

text \<open>
  \<open>Date.now()\<close> and \<open>Math.random()\<close> read the outside world. The world is a pair
  of oracles, the successive readings of the clock (milliseconds) and the successive
  random draws, with the number of readings taken so far.
\<close>

record world =
  clock :: "nat \<Rightarrow> nat"
  rnd :: "nat \<Rightarrow> real"
  ci :: nat
  ri :: nat

datatype exn = TypeError

type_synonym 'a io = "world \<Rightarrow> (exn + 'a) \<times> world"

definition ret :: "'a \<Rightarrow> 'a io" where
  "ret x = (\<lambda>w. (Inr x, w))"

definition throw :: "exn \<Rightarrow> 'a io" where
  "throw e = (\<lambda>w. (Inl e, w))"

definition bnd :: "'a io \<Rightarrow> ('a \<Rightarrow> 'b io) \<Rightarrow> 'b io" where
  "bnd m f = (\<lambda>w. case m w of (Inl e, w') \<Rightarrow> (Inl e, w') | (Inr x, w') \<Rightarrow> f x w')"

definition try_catch :: "'a io \<Rightarrow> (exn \<Rightarrow> 'a io) \<Rightarrow> 'a io" where
  "try_catch m h = (\<lambda>w. case m w of (Inl e, w') \<Rightarrow> h e w' | (Inr x, w') \<Rightarrow> (Inr x, w'))"

definition Date_now :: "nat io" where
  "Date_now = (\<lambda>w. (Inr (clock w (ci w)), w\<lparr>ci := Suc (ci w)\<rparr>))"

definition Math_random :: "jsnum io" where
  "Math_random = (\<lambda>w. (Inr (Fin (rnd w (ri w))), w\<lparr>ri := Suc (ri w)\<rparr>))"

fun mapM_io :: "('a \<Rightarrow> 'b io) \<Rightarrow> 'a list \<Rightarrow> 'b list io" where
  "mapM_io f [] = ret []"
| "mapM_io f (x # xs) = bnd (f x) (\<lambda>y. bnd (mapM_io f xs) (\<lambda>ys. ret (y # ys)))"

section \<open>Data model\<close>

text \<open>
  A component descriptor as it arrives in a request body. The spec's data model gives every
  component a \<open>properties\<close> mapping; the request body is arbitrary JSON, so the
  mapping may be absent (\<open>None\<close>, JavaScript's undefined), and reading a key of an
  absent mapping throws a TypeError. A present mapping is an association list from keys to
  values.
\<close>

record component =
  cid :: nat
  ctype :: string
  cname :: string
  properties :: "(string \<times> jsval) list option"

record connection =
  c_from :: nat
  c_to :: nat
  signal :: string

record node =
  voltage :: jsnum
  current :: jsnum
  power :: jsnum
  temperature :: jsnum
  frequency :: jsnum

datatype status = Normal | Overvoltage | Overcurrent | Overpower | Error

record operatingPoint =
  op_voltage :: jsnum
  op_current :: jsnum
  op_power :: jsnum

record analysis =
  operatingPoint :: operatingPoint
  characteristics :: "(string \<times> jsval) list"
  status :: status

record performance =
  totalPower :: jsnum
  maxVoltage :: jsnum
  maxCurrent :: jsnum
  efficiency :: jsnum
  propagationDelay :: jsnum
  bandwidth :: jsnum

record results =
  timestamp :: nat
  r_timeStep :: jsnum
  nodes :: "(nat \<times> node) list"
  r_components :: "(nat \<times> analysis) list"
  r_performance :: performance

text \<open>The fields of a \<open>CircuitSimulator\<close> object.\<close>

record simulator =
  designId :: string
  components :: "component list option"
  connections :: "connection list"
  isRunning :: bool
  timeStep :: jsnum
  simulationSpeed :: jsnum

definition new_CircuitSimulator ::
    "string \<Rightarrow> component list option \<Rightarrow> connection list \<Rightarrow> simulator" where
  "new_CircuitSimulator did comps conns =
     \<lparr>designId = did, components = comps, connections = conns, isRunning = False,
      timeStep = Fin 0, simulationSpeed = Fin 1\<rparr>"

section \<open>Component model library\<close>

text \<open>\<open>component.properties.key\<close>: throws when the mapping is absent, undefined when the key is.\<close>

definition propValue :: "(string \<times> jsval) list \<Rightarrow> string \<Rightarrow> jsval" where
  "propValue ps k = (case map_of ps k of None \<Rightarrow> JUndefined | Some v \<Rightarrow> v)"

definition getProp :: "component \<Rightarrow> string \<Rightarrow> jsval io" where
  "getProp c k =
     (case properties c of
        None \<Rightarrow> throw TypeError
      | Some ps \<Rightarrow> ret (propValue ps k))"

text \<open>\<open>parseFloat(component.properties.key) || d\<close>\<close>

definition numProp :: "component \<Rightarrow> string \<Rightarrow> jsnum \<Rightarrow> jsnum io" where
  "numProp c k d = bnd (getProp c k) (\<lambda>v. ret (jor (parseFloat v) d))"

definition baseVoltage :: jsnum where
  "baseVoltage = Fin 3.3"

definition calculateNodeVoltage :: "component \<Rightarrow> jsnum io" where
  "calculateNodeVoltage c =
     bnd Date_now (\<lambda>timeMs.
       if ctype c = ''transistor'' then
         bnd (numProp c ''threshold'' (Fin 0.7)) (\<lambda>vth.
         bnd Math_random (\<lambda>r.
           let noise = (r - Fin 0.5) * Fin 0.1
           in ret (baseVoltage * (Fin 1 + Math_sin (Fin (real timeMs) / Fin 1000) * Fin 0.2) + noise)))
       else if ctype c = ''resistor'' then
         bnd (numProp c ''resistance'' (Fin 1000)) (\<lambda>resistance.
         bnd Math_random (\<lambda>r.
           let thermalNoise =
                 Math_sqrt (Fin 4 * Fin (1.38 / 10 ^ 23) * Fin 300 * Fin 1000) * r
           in ret (baseVoltage * (Fin 1 - resistance / Fin 10000) + thermalNoise)))
       else if ctype c = ''capacitor'' then
         bnd (numProp c ''capacitance'' (Fin (1 / 10 ^ 12))) (\<lambda>capacitance.
           let chargeTime = Fin (real (timeMs mod 2000)) / Fin 2000;
               rcConstant = Fin 1000 * capacitance
           in ret (baseVoltage * (Fin 1 - Math_exp (- chargeTime / rcConstant))))
       else if ctype c = ''inductor'' then
         bnd (numProp c ''inductance'' (Fin (1 / 10 ^ 6))) (\<lambda>inductance.
           ret (baseVoltage
                + Fin 0.5 * Math_sin (Fin (real timeMs) / Fin 500)
                  * Math_exp (- Fin (real timeMs) / Fin 5000)))
       else if ctype c = ''diode'' then
         bnd (numProp c ''forwardVoltage'' (Fin 0.7)) (\<lambda>vf.
         bnd Math_random (\<lambda>r1.
         bnd Math_random (\<lambda>r2.
           let tempCoeff = Fin (- 0.002);
               temp = Fin 25 + r1 * Fin 10
           in ret (vf + tempCoeff * (temp - Fin 25) + r2 * Fin 0.01))))
       else
         bnd Math_random (\<lambda>r. ret (baseVoltage + r * Fin 0.1)))"

definition calculateCurrent :: "component \<Rightarrow> jsnum \<Rightarrow> jsnum io" where
  "calculateCurrent c v =
     (if ctype c = ''transistor'' then
        bnd (numProp c ''width'' (Fin (10 / 10 ^ 6))) (\<lambda>width.
        bnd (numProp c ''length'' (Fin (0.5 / 10 ^ 6))) (\<lambda>length.
          let mobility = Fin (400 / 10 ^ 4);
              cox = Fin 3.9 * Fin (8.854 / 10 ^ 14) / Fin (3 / 10 ^ 9);
              vth = Fin 0.7;
              vgs = v;
              vds = v * Fin 0.8
          in if vth < vgs then
               let idr = Fin 0.5 * mobility * cox * (width / length) * Math_pow2 (vgs - vth)
                         * (Fin 1 + Fin 0.1 * vds)
               in ret (idr * Fin (10 ^ 6))
             else bnd Math_random (\<lambda>r. ret (Fin 0.001 + r * Fin 0.0001))))
      else if ctype c = ''resistor'' then
        bnd (numProp c ''resistance'' (Fin 1000)) (\<lambda>resistance. ret (v / resistance))
      else if ctype c = ''capacitor'' then
        bnd (numProp c ''capacitance'' (Fin (1 / 10 ^ 12))) (\<lambda>capacitance.
          let frequency = Fin 1000;
              impedance = Fin 1 / (Fin 2 * Math_PI * frequency * capacitance)
          in ret (v / impedance))
      else if ctype c = ''inductor'' then
        bnd (numProp c ''inductance'' (Fin (1 / 10 ^ 6))) (\<lambda>inductance.
          let xl = Fin 2 * Math_PI * Fin 1000 * inductance
          in ret (v / xl))
      else ret (v / Fin 1000))"

definition calculateTemperature :: "jsnum \<Rightarrow> jsnum io" where
  "calculateTemperature p =
     bnd Math_random (\<lambda>r. ret (Fin 25 + p * Fin 100 + r * Fin 2))"

definition calculateFrequency :: "component \<Rightarrow> jsnum io" where
  "calculateFrequency c =
     (let baseFreq = Fin 1000
      in if ctype c = ''transistor'' then
           bnd Math_random (\<lambda>r. ret (baseFreq * Fin 10 + r * Fin 1000))
         else if ctype c = ''capacitor'' then
           bnd (numProp c ''capacitance'' (Fin (1 / 10 ^ 12))) (\<lambda>cap.
             ret (Fin 1 / (Fin 2 * Math_PI * Fin 1000 * cap)))
         else bnd Math_random (\<lambda>r. ret (baseFreq + r * Fin 500)))"

definition transistor_status :: "jsnum \<Rightarrow> jsnum \<Rightarrow> status" where
  "transistor_status v i =
     (let st = Normal;
          st = (if Fin 5 < v then Overvoltage else st);
          st = (if Fin 0.1 < i then Overcurrent else st)
      in st)"

definition analyzeComponent :: "component \<Rightarrow> jsnum \<Rightarrow> jsnum \<Rightarrow> analysis io" where
  "analyzeComponent c v i =
     (let opp = \<lparr>op_voltage = v, op_current = i, op_power = v * i\<rparr>
      in if ctype c = ''transistor'' then
           let vth = Fin 0.7
           in ret \<lparr>operatingPoint = opp,
                   characteristics =
                     [(''region'', JStr (if vth < v then ''saturation'' else ''cutoff'')),
                      (''transconductance'',
                         JNum (if v - vth \<noteq> Fin 0 then Fin 2 * i / (v - vth) else Fin 0)),
                      (''outputResistance'', JNum (if i \<noteq> Fin 0 then v / i else PInf)),
                      (''gainBandwidth'', JNum (Fin (10 ^ 9)))],
                   status = transistor_status v i\<rparr>
         else if ctype c = ''resistor'' then
           bnd (numProp c ''resistance'' (Fin 1000)) (\<lambda>resistance.
           bnd (numProp c ''power'' (Fin 0.25)) (\<lambda>maxPower.
             let actualPower = v * i
             in ret \<lparr>operatingPoint = opp,
                     characteristics =
                       [(''resistance'', JNum resistance),
                        (''powerDissipation'', JNum actualPower),
                        (''powerRating'', JNum maxPower),
                        (''efficiency'', JNum (actualPower / maxPower * Fin 100))],
                     status = (if maxPower < actualPower then Overpower else Normal)\<rparr>))
         else if ctype c = ''capacitor'' then
           bnd (numProp c ''capacitance'' (Fin (1 / 10 ^ 12))) (\<lambda>capacitance.
           bnd (numProp c ''voltage'' (Fin 5)) (\<lambda>maxVolt.
             ret \<lparr>operatingPoint = opp,
                  characteristics =
                    [(''capacitance'', JNum capacitance),
                     (''chargeStored'', JNum (capacitance * v)),
                     (''energy'', JNum (Fin 0.5 * capacitance * v * v)),
                     (''impedance'', JNum (Fin 1 / (Fin 2 * Math_PI * Fin 1000 * capacitance)))],
                  status = (if maxVolt < v then Overvoltage else Normal)\<rparr>))
         else ret \<lparr>operatingPoint = opp, characteristics = [], status = Normal\<rparr>)"

section \<open>Snapshot aggregator and \<open>simulate\<close>\<close>

definition default_node :: node where
  "default_node =
     \<lparr>voltage = Fin 0, current = Fin 0, power = Fin 0, temperature = Fin 25, frequency = Fin 1000\<rparr>"

definition error_analysis :: analysis where
  "error_analysis =
     \<lparr>operatingPoint = \<lparr>op_voltage = Fin 0, op_current = Fin 0, op_power = Fin 0\<rparr>,
      characteristics = [], status = Error\<rparr>"

text \<open>
  The body of the \<open>try\<close> block of \<open>simulate\<close>: the node record and the analysis of one
  component. The source stores the node record before it calls \<open>analyzeComponent\<close>; the
  \<open>catch\<close> block overwrites both entries, so storing both after the block is the same.
\<close>

definition evalComponent :: "component \<Rightarrow> (node \<times> analysis) io" where
  "evalComponent cmp =
     bnd (calculateNodeVoltage cmp) (\<lambda>nodeVoltage.
     bnd (calculateCurrent cmp nodeVoltage) (\<lambda>cur.
       let pw = nodeVoltage * cur
       in bnd (calculateTemperature pw) (\<lambda>temp.
          bnd (calculateFrequency cmp) (\<lambda>freq.
          bnd (analyzeComponent cmp nodeVoltage cur) (\<lambda>an.
            ret (\<lparr>voltage = nodeVoltage, current = cur, power = pw, temperature = temp,
                  frequency = freq\<rparr>, an))))))"

definition tryComponent :: "component \<Rightarrow> (node \<times> analysis) io" where
  "tryComponent cmp = try_catch (evalComponent cmp) (\<lambda>e. ret (default_node, error_analysis))"

text \<open>
  \<open>this.components.forEach\<close>: \<open>results.nodes[comp.id] = ...\<close> keeps the place of a key
  that is already there and appends a new one.
\<close>

fun forEach_component ::
    "component list \<Rightarrow> (nat \<times> node) list \<times> (nat \<times> analysis) list
      \<Rightarrow> ((nat \<times> node) list \<times> (nat \<times> analysis) list) io" where
  "forEach_component [] acc = ret acc"
| "forEach_component (cmp # rest) acc =
     bnd (tryComponent cmp) (\<lambda>na.
       forEach_component rest
         (AList.update (cid cmp) (fst na) (fst acc), AList.update (cid cmp) (snd na) (snd acc)))"

text \<open>
  \<open>Object.values\<close>: the keys that are array indices in ascending order, then the other
  keys in the order they were added.
\<close>

definition isIndex :: "nat \<Rightarrow> bool" where
  "isIndex k = (k < 4294967295)"

definition Object_values :: "(nat \<times> 'a) list \<Rightarrow> 'a list" where
  "Object_values al =
     map snd (sort_key fst (filter (\<lambda>kv. isIndex (fst kv)) al))
     @ map snd (filter (\<lambda>kv. \<not> isIndex (fst kv)) al)"

definition calculateEfficiency :: "(nat \<times> node) list \<Rightarrow> jsnum" where
  "calculateEfficiency ns =
     (let totalPowerIn =
            foldl (\<lambda>sum n. sum + power n) (Fin 0)
              (filter (\<lambda>n. Fin 0 < power n) (Object_values ns));
          totalPowerOut =
            foldl (\<lambda>sum n. sum + Math_abs (power n)) (Fin 0)
              (filter (\<lambda>n. power n < Fin 0) (Object_values ns))
      in if Fin 0 < totalPowerIn then totalPowerOut / totalPowerIn * Fin 100 else Fin 0)"

definition calculatePropagationDelay :: "simulator \<Rightarrow> jsnum io" where
  "calculatePropagationDelay s =
     (case components s of
        None \<Rightarrow> throw TypeError
      | Some comps \<Rightarrow>
          let componentDelay = Fin (real (length comps)) * Fin (10 / 10 ^ 12);
              wireDelay = Fin (real (length (connections s))) * Fin (5 / 10 ^ 12)
          in ret ((componentDelay + wireDelay) * Fin (10 ^ 12)))"

definition calculateBandwidth :: "simulator \<Rightarrow> jsnum io" where
  "calculateBandwidth s =
     (case components s of
        None \<Rightarrow> throw TypeError
      | Some comps \<Rightarrow>
          if length comps = 0 then ret (Fin 0)
          else bnd (mapM_io calculateFrequency comps) (\<lambda>frequencies. ret (Math_max frequencies)))"

definition zero_performance :: performance where
  "zero_performance =
     \<lparr>totalPower = Fin 0, maxVoltage = Fin 0, maxCurrent = Fin 0, efficiency = Fin 0,
      propagationDelay = Fin 0, bandwidth = Fin 0\<rparr>"

text \<open>
  What \<open>simulate\<close> computes after \<open>this.timeStep++\<close>; \<open>step\<close> is the value of the counter
  before the increment.
\<close>

definition simulate_body :: "simulator \<Rightarrow> jsnum \<Rightarrow> results io" where
  "simulate_body s step =
     bnd Date_now (\<lambda>ts.
       if components s = None \<or> components s = Some [] then
         ret \<lparr>timestamp = ts, r_timeStep = step, nodes = [], r_components = [],
              r_performance = zero_performance\<rparr>
       else
         bnd (forEach_component (the (components s)) ([], [])) (\<lambda>nc.
           let nodeValues = Object_values (fst nc);
               tp = foldl (\<lambda>sum n. sum + jor (power n) (Fin 0)) (Fin 0) nodeValues;
               mv = (if 0 < length nodeValues
                     then Math_max (map (\<lambda>n. jor (voltage n) (Fin 0)) nodeValues) else Fin 0);
               mc = (if 0 < length nodeValues
                     then Math_max (map (\<lambda>n. jor (current n) (Fin 0)) nodeValues) else Fin 0);
               eff = calculateEfficiency (fst nc)
           in bnd (calculatePropagationDelay s) (\<lambda>pd.
              bnd (calculateBandwidth s) (\<lambda>bw.
                ret \<lparr>timestamp = ts, r_timeStep = step, nodes = fst nc, r_components = snd nc,
                     r_performance =
                       \<lparr>totalPower = tp, maxVoltage = mv, maxCurrent = mc, efficiency = eff,
                        propagationDelay = pd, bandwidth = bw\<rparr>\<rparr>))))"

text \<open>
  \<open>simulate()\<close>: the counter is incremented whether or not the rest throws; the result
  is the snapshot or the exception, the simulator after the call and the world after it.
\<close>

definition simulate :: "simulator \<Rightarrow> world \<Rightarrow> (exn + results) \<times> simulator \<times> world" where
  "simulate s w =
     (let r = simulate_body s (timeStep s) w
      in (fst r, s\<lparr>timeStep := timeStep s + Fin 1\<rparr>, snd r))"

section \<open>Batch runner\<close>

text \<open>
  The loop of the \<open>POST /api/designs/:id/simulate\<close> handler:
  \<open>for (let i = 0; i < steps; i++) { simulator.timeStep = i * timeStep; results.push(simulator.simulate()) }\<close>.
  An exception of \<open>simulate\<close> leaves the loop and the handler.
\<close>

function batch_loop ::
    "nat \<Rightarrow> nat \<Rightarrow> jsnum \<Rightarrow> simulator \<Rightarrow> results list \<Rightarrow> world
      \<Rightarrow> (exn + results list) \<times> simulator \<times> world" where
  "batch_loop i steps dt s acc w =
     (if i < steps then
        (case simulate (s\<lparr>timeStep := Fin (real i) * dt\<rparr>) w of
           (Inl e, s', w') \<Rightarrow> (Inl e, s', w')
         | (Inr r, s', w') \<Rightarrow> batch_loop (Suc i) steps dt s' (acc @ [r]) w')
      else (Inr acc, s, w))"
  by pat_completeness auto
termination
  by (relation "measure (\<lambda>(i, steps, dt, s, acc, w). steps - i)") auto

declare batch_loop.simps [simp del]

definition runBatch ::
    "component list option \<Rightarrow> connection list \<Rightarrow> string \<Rightarrow> nat \<Rightarrow> jsnum \<Rightarrow> world
      \<Rightarrow> (exn + results list) \<times> world" where
  "runBatch comps conns did steps dt w =
     (let r = batch_loop 0 steps dt (new_CircuitSimulator did comps conns) [] w
      in (fst r, snd (snd r)))"

section \<open>Design store, session registry and timers\<close>

text \<open>
  The server holds three module-level maps (\<open>designs\<close>, \<open>activeSimulations\<close>,
  \<open>clients\<close>). Arrays and simulator objects are JavaScript objects, held by reference:
  the store keeps component arrays and simulator objects at addresses, so that two holders
  of one address see each other's writes. A request body is a tree, so the component
  objects of an array are reachable through that array only and are kept inside it.
  The timers of the event loop (\<open>setInterval\<close>, \<open>setTimeout\<close>) are the maps
  \<open>intervals\<close> and \<open>timeouts\<close> from a handle to what the callback closes over;
  \<open>clearInterval\<close> removes the handle. Every \<open>send\<close> on a socket is recorded in
  \<open>outbox\<close> with the client it goes to.
\<close>

record design =
  d_name :: string
  d_components :: nat
  d_connections :: "connection list"

record config =
  updateRate :: nat
  duration :: nat

record sim_obj =
  obj_designId :: string
  obj_components :: nat
  obj_connections :: "connection list"
  obj_isRunning :: bool
  obj_timeStep :: jsnum

record simulation =
  sim_ref :: nat
  interval :: "nat option"
  sim_config :: config

datatype message =
    ErrorMsg string
  | SimulationStarted string config
  | SimulationData results
  | SimulationStopped
  | ComponentUpdated nat "(string \<times> jsval) list"

record server =
  designs :: "string \<rightharpoonup> design"
  heap :: "nat \<rightharpoonup> component list"
  simulators :: "nat \<rightharpoonup> sim_obj"
  activeSimulations :: "string \<rightharpoonup> simulation"
  clients :: "string set"
  intervals :: "nat \<rightharpoonup> string \<times> nat"
  timeouts :: "nat \<rightharpoonup> string"
  outbox :: "(string \<times> message) list"
  fresh :: nat

definition init_server :: server where
  "init_server =
     \<lparr>designs = Map.empty, heap = Map.empty, simulators = Map.empty,
      activeSimulations = Map.empty, clients = {}, intervals = Map.empty,
      timeouts = Map.empty, outbox = [], fresh = 0\<rparr>"

definition send :: "string \<Rightarrow> message \<Rightarrow> server \<Rightarrow> server" where
  "send clientId m srv = srv\<lparr>outbox := outbox srv @ [(clientId, m)]\<rparr>"

text \<open>\<open>POST /api/designs\<close>: the arrays of the request body become the design's own.\<close>

definition createDesign ::
    "string \<Rightarrow> string \<Rightarrow> component list \<Rightarrow> connection list \<Rightarrow> server \<Rightarrow> server" where
  "createDesign did name comps conns srv =
     srv\<lparr>designs := (designs srv)(did \<mapsto>
            \<lparr>d_name = name, d_components = fresh srv, d_connections = conns\<rparr>),
         heap := (heap srv)(fresh srv \<mapsto> comps),
         fresh := Suc (fresh srv)\<rparr>"

text \<open>
  \<open>PUT /api/designs/:id\<close>: \<open>None\<close> is the 404 answer. Each field of the request body
  that is present (and truthy) replaces the design's field; a \<open>components\<close> array of the
  body is a new array, and the design's old array stays with whoever holds it.
\<close>

definition updateDesign ::
    "string \<Rightarrow> string option \<Rightarrow> component list option \<Rightarrow> connection list option
      \<Rightarrow> server \<Rightarrow> server option" where
  "updateDesign did name comps conns srv =
     (case designs srv did of
        None \<Rightarrow> None
      | Some d \<Rightarrow>
          let d1 = (case name of
                      None \<Rightarrow> d
                    | Some n \<Rightarrow> if n = [] then d else d\<lparr>d_name := n\<rparr>);
              d2 = (case comps of None \<Rightarrow> d1 | Some cs \<Rightarrow> d1\<lparr>d_components := fresh srv\<rparr>);
              d3 = (case conns of None \<Rightarrow> d2 | Some cn \<Rightarrow> d2\<lparr>d_connections := cn\<rparr>)
          in Some (srv\<lparr>designs := (designs srv)(did \<mapsto> d3),
                      heap := (case comps of
                                 None \<Rightarrow> heap srv
                               | Some cs \<Rightarrow> (heap srv)(fresh srv \<mapsto> cs)),
                      fresh := (case comps of None \<Rightarrow> fresh srv | Some cs \<Rightarrow> Suc (fresh srv))\<rparr>))"

definition on_connection :: "string \<Rightarrow> server \<Rightarrow> server" where
  "on_connection clientId srv = srv\<lparr>clients := insert clientId (clients srv)\<rparr>"

text \<open>\<open>ws.on('close')\<close>: \<open>clients.delete(clientId)\<close> and a log line, nothing else.\<close>

definition on_close :: "string \<Rightarrow> server \<Rightarrow> server" where
  "on_close clientId srv = srv\<lparr>clients := clients srv - {clientId}\<rparr>"

definition default_config :: config where
  "default_config = \<lparr>updateRate = 100, duration = 30000\<rparr>"

definition startRealTimeSimulation ::
    "string \<Rightarrow> string \<Rightarrow> config option \<Rightarrow> server \<Rightarrow> server" where
  "startRealTimeSimulation clientId did cfg srv =
     (case designs srv did of
        None \<Rightarrow> send clientId (ErrorMsg ''Design not found'') srv
      | Some d \<Rightarrow>
          let a = fresh srv;
              t = Suc (fresh srv);
              t2 = Suc (Suc (fresh srv));
              conf = (case cfg of None \<Rightarrow> default_config | Some c \<Rightarrow> c);
              simulator =
                \<lparr>obj_designId = did, obj_components = d_components d,
                 obj_connections = d_connections d, obj_isRunning = False,
                 obj_timeStep = Fin 0\<rparr>;
              srv1 = srv\<lparr>activeSimulations := (activeSimulations srv)(clientId \<mapsto>
                           \<lparr>sim_ref = a, interval = None, sim_config = conf\<rparr>)\<rparr>;
              srv2 = srv1\<lparr>simulators := (simulators srv1)(a \<mapsto> simulator\<lparr>obj_isRunning := True\<rparr>)\<rparr>;
              srv3 = srv2\<lparr>intervals := (intervals srv2)(t \<mapsto> (clientId, a)),
                          activeSimulations := (activeSimulations srv2)(clientId \<mapsto>
                            \<lparr>sim_ref = a, interval = Some t, sim_config = conf\<rparr>)\<rparr>;
              srv4 = srv3\<lparr>timeouts := (timeouts srv3)(t2 \<mapsto> clientId),
                          fresh := Suc (Suc (Suc (fresh srv)))\<rparr>
          in send clientId (SimulationStarted did conf) srv4)"

definition stopRealTimeSimulation :: "string \<Rightarrow> server \<Rightarrow> server" where
  "stopRealTimeSimulation clientId srv =
     (case activeSimulations srv clientId of
        None \<Rightarrow> srv
      | Some simulation \<Rightarrow>
          let srv1 = srv\<lparr>simulators :=
                       (case simulators srv (sim_ref simulation) of
                          None \<Rightarrow> simulators srv
                        | Some so \<Rightarrow> (simulators srv)(sim_ref simulation \<mapsto> so\<lparr>obj_isRunning := False\<rparr>))\<rparr>;
              srv2 = (case interval simulation of
                        None \<Rightarrow> srv1
                      | Some t \<Rightarrow> srv1\<lparr>intervals := (intervals srv1)(t := None)\<rparr>);
              srv3 = srv2\<lparr>activeSimulations := (activeSimulations srv2)(clientId := None)\<rparr>
          in if clientId \<in> clients srv3 then send clientId SimulationStopped srv3 else srv3)"

text \<open>\<open>Object.assign(target, source)\<close> on property mappings.\<close>

definition Object_assign ::
    "(string \<times> jsval) list \<Rightarrow> (string \<times> jsval) list \<Rightarrow> (string \<times> jsval) list" where
  "Object_assign target source = foldl (\<lambda>t kv. AList.update (fst kv) (snd kv) t) target source"

text \<open>Writing to the first component of the array whose id is \<open>k\<close>, the one \<open>find\<close> returns.\<close>

fun replace_first :: "nat \<Rightarrow> component \<Rightarrow> component list \<Rightarrow> component list" where
  "replace_first k c' [] = []"
| "replace_first k c' (c # cs) = (if cid c = k then c' # cs else c # replace_first k c' cs)"

definition updateComponentInSimulation ::
    "string \<Rightarrow> nat \<Rightarrow> (string \<times> jsval) list \<Rightarrow> server \<Rightarrow> exn + server" where
  "updateComponentInSimulation clientId componentId props srv =
     (case activeSimulations srv clientId of
        None \<Rightarrow> Inr srv
      | Some simulation \<Rightarrow>
          (case simulators srv (sim_ref simulation) of
             None \<Rightarrow> Inl TypeError
           | Some so \<Rightarrow>
               (case heap srv (obj_components so) of
                  None \<Rightarrow> Inl TypeError
                | Some arr \<Rightarrow>
                    (case find (\<lambda>c. cid c = componentId) arr of
                       None \<Rightarrow> Inr srv
                     | Some component \<Rightarrow>
                         (case properties component of
                            None \<Rightarrow> Inl TypeError
                          | Some ps \<Rightarrow>
                              let srv1 = srv\<lparr>heap := (heap srv)(obj_components so \<mapsto>
                                           replace_first componentId
                                             (component\<lparr>properties := Some (Object_assign ps props)\<rparr>)
                                             arr)\<rparr>
                              in Inr (if clientId \<in> clients srv1
                                      then send clientId (ComponentUpdated componentId props) srv1
                                      else srv1))))))"

datatype request =
    Start_simulation string "config option"
  | Stop_simulation
  | Update_component nat "(string \<times> jsval) list"
  | Other_request

definition handleWebSocketMessage :: "string \<Rightarrow> request \<Rightarrow> server \<Rightarrow> exn + server" where
  "handleWebSocketMessage clientId req srv =
     (case req of
        Start_simulation did cfg \<Rightarrow> Inr (startRealTimeSimulation clientId did cfg srv)
      | Stop_simulation \<Rightarrow> Inr (stopRealTimeSimulation clientId srv)
      | Update_component k props \<Rightarrow> updateComponentInSimulation clientId k props srv
      | Other_request \<Rightarrow> Inr srv)"

text \<open>
  \<open>ws.on('message')\<close>: an exception of the handler is caught and answered with the error
  message. (An exception leaves the handler before it has written anything.)
\<close>

definition on_message :: "string \<Rightarrow> request \<Rightarrow> server \<Rightarrow> server" where
  "on_message clientId req srv =
     (case handleWebSocketMessage clientId req srv of
        Inl e \<Rightarrow> send clientId (ErrorMsg ''Invalid JSON'') srv
      | Inr srv' \<Rightarrow> srv')"

text \<open>The simulator object with its component array read through the reference.\<close>

definition load :: "server \<Rightarrow> sim_obj \<Rightarrow> simulator" where
  "load srv so =
     \<lparr>designId = obj_designId so, components = heap srv (obj_components so),
      connections = obj_connections so, isRunning = obj_isRunning so,
      timeStep = obj_timeStep so, simulationSpeed = Fin 1\<rparr>"

text \<open>
  One firing of the interval timer \<open>t\<close>: the callback that \<open>startRealTimeSimulation\<close>
  passed to \<open>setInterval\<close>, closed over \<open>clientId\<close> and \<open>simulator\<close>. A cleared timer
  does not fire. An exception of \<open>simulate\<close> is not caught by the callback.
\<close>

definition interval_fire :: "nat \<Rightarrow> server \<Rightarrow> world \<Rightarrow> (exn + server) \<times> world" where
  "interval_fire t srv w =
     (case intervals srv t of
        None \<Rightarrow> (Inr srv, w)
      | Some (clientId, a) \<Rightarrow>
          (case simulators srv a of
             None \<Rightarrow> (Inl TypeError, w)
           | Some so \<Rightarrow>
               if obj_isRunning so then
                 (case simulate (load srv so) w of
                    (Inl e, s', w') \<Rightarrow> (Inl e, w')
                  | (Inr res, s', w') \<Rightarrow>
                      let srv1 = srv\<lparr>simulators := (simulators srv)(a \<mapsto> so\<lparr>obj_timeStep := timeStep s'\<rparr>)\<rparr>
                      in (Inr (if clientId \<in> clients srv1
                               then send clientId (SimulationData res) srv1 else srv1), w'))
               else (Inr srv, w)))"

text \<open>The auto-stop timer: \<open>setTimeout(() => stopRealTimeSimulation(clientId), duration)\<close>.\<close>

definition timeout_fire :: "nat \<Rightarrow> server \<Rightarrow> server" where
  "timeout_fire t srv =
     (case timeouts srv t of
        None \<Rightarrow> srv
      | Some clientId \<Rightarrow> stopRealTimeSimulation clientId (srv\<lparr>timeouts := (timeouts srv)(t := None)\<rparr>))"

text \<open>\<open>POST /api/designs/:id/simulate\<close>: \<open>None\<close> is the 404 answer.\<close>

definition simulate_endpoint ::
    "server \<Rightarrow> string \<Rightarrow> nat \<Rightarrow> jsnum \<Rightarrow> world \<Rightarrow> ((exn + results list) \<times> world) option" where
  "simulate_endpoint srv did steps dt w =
     (case designs srv did of
        None \<Rightarrow> None
      | Some d \<Rightarrow> Some (runBatch (heap srv (d_components d)) (d_connections d) did steps dt w))"

text \<open>The snapshots sent to a client so far.\<close>

definition snapshots_of :: "string \<Rightarrow> server \<Rightarrow> results list" where
  "snapshots_of clientId srv =
     concat (map (\<lambda>cm. if fst cm = clientId
                         then (case snd cm of SimulationData r \<Rightarrow> [r] | _ \<Rightarrow> []) else [])
                 (outbox srv))"

section \<open>Observations\<close>




text \<open>Everything a snapshot holds except the step counter; the node voltages of a snapshot.\<close>

definition readings :: "results \<Rightarrow> nat \<times> (nat \<times> node) list \<times> (nat \<times> analysis) list \<times> performance" where
  "readings r = (timestamp r, nodes r, r_components r, r_performance r)"

definition node_voltages :: "results \<Rightarrow> jsnum list" where
  "node_voltages r = map (voltage \<circ> snd) (nodes r)"

text \<open>
  The component array of a stored design (\<open>designs.get(id).components\<close>) and the array the
  simulator of a client's session holds (\<open>simulation.simulator.components\<close>): first the
  references, then the lists found there.
\<close>

definition stored_array :: "server \<Rightarrow> string \<Rightarrow> nat option" where
  "stored_array srv did = map_option d_components (designs srv did)"

definition session_array :: "server \<Rightarrow> string \<Rightarrow> nat option" where
  "session_array srv clientId =
     (case activeSimulations srv clientId of
        None \<Rightarrow> None
      | Some simulation \<Rightarrow> map_option obj_components (simulators srv (sim_ref simulation)))"

definition stored_components :: "server \<Rightarrow> string \<Rightarrow> component list option" where
  "stored_components srv did =
     (case designs srv did of None \<Rightarrow> None | Some d \<Rightarrow> heap srv (d_components d))"

definition session_components :: "server \<Rightarrow> string \<Rightarrow> component list option" where
  "session_components srv clientId =
     (case activeSimulations srv clientId of
        None \<Rightarrow> None
      | Some simulation \<Rightarrow>
          (case simulators srv (sim_ref simulation) of
             None \<Rightarrow> None
           | Some so \<Rightarrow> heap srv (obj_components so)))"

text \<open>Addresses are handed out in increasing order: nothing lives at or above the next one.\<close>

definition wf_heap :: "server \<Rightarrow> bool" where
  "wf_heap srv = (\<forall>a. fresh srv \<le> a \<longrightarrow> heap srv a = None)"

section \<open>Concrete inputs\<close>

text \<open>A world whose clock always reads \<open>t\<close> and whose random source always draws \<open>r\<close>.\<close>

definition fixed_world :: "nat \<Rightarrow> real \<Rightarrow> world" where
  "fixed_world t r = \<lparr>clock = (\<lambda>n. t), rnd = (\<lambda>n. r), ci = 0, ri = 0\<rparr>"

text \<open>
  Components: a transistor, a resistor and a capacitor as a client sends them; resistors
  whose resistance does not parse, parses to 0, or parses to infinity; a capacitor without
  a \<open>properties\<close> object, a resistor without one.
\<close>

definition ex_transistor :: component where
  "ex_transistor =
     \<lparr>cid = 1, ctype = ''transistor'', cname = ''NMOS_1'',
      properties = Some [(''width'', JStr ''10''), (''length'', JStr ''0.5'')]\<rparr>"

definition ex_resistor :: component where
  "ex_resistor =
     \<lparr>cid = 2, ctype = ''resistor'', cname = ''R1'',
      properties = Some [(''resistance'', JStr ''1000''), (''power'', JStr ''0.25'')]\<rparr>"

definition ex_capacitor :: component where
  "ex_capacitor =
     \<lparr>cid = 3, ctype = ''capacitor'', cname = ''C1'',
      properties = Some [(''capacitance'', JStr ''1pF''), (''voltage'', JStr ''5V'')]\<rparr>"


definition ex_resistor_zero :: component where
  "ex_resistor_zero =
     \<lparr>cid = 2, ctype = ''resistor'', cname = ''R1'',
      properties = Some [(''resistance'', JStr ''0'')]\<rparr>"

definition ex_resistor_inf :: component where
  "ex_resistor_inf =
     \<lparr>cid = 2, ctype = ''resistor'', cname = ''R1'',
      properties = Some [(''resistance'', JStr ''Infinity'')]\<rparr>"


definition ex_capacitor_bare :: component where
  "ex_capacitor_bare = \<lparr>cid = 3, ctype = ''capacitor'', cname = ''C1'', properties = None\<rparr>"

text \<open>
  A server with one stored design and one connected client, and the states it reaches: the
  client starts a session; updates a component; a second client starts a fresh session;
  the design's components are replaced through PUT after the start, and then the client
  updates a component; the first client starts again without stopping; stops; or closes
  its connection.
\<close>

definition ex_server :: server where
  "ex_server = on_connection ''c'' (createDesign ''d'' ''Test Circuit'' [ex_resistor] [] init_server)"

definition ex_started :: server where
  "ex_started = on_message ''c'' (Start_simulation ''d'' None) ex_server"

definition ex_updated :: server where
  "ex_updated = on_message ''c'' (Update_component 2 [(''resistance'', JStr ''2000'')]) ex_started"

definition ex_fresh :: server where
  "ex_fresh = on_message ''c2'' (Start_simulation ''d'' None) (on_connection ''c2'' ex_updated)"

definition ex_replaced :: server where
  "ex_replaced =
     (case updateDesign ''d'' None (Some [ex_resistor]) None ex_started of
        None \<Rightarrow> ex_started | Some srv \<Rightarrow> srv)"

definition ex_replaced_updated :: server where
  "ex_replaced_updated =
     on_message ''c'' (Update_component 2 [(''resistance'', JStr ''2000'')]) ex_replaced"

definition ex_restarted :: server where
  "ex_restarted = on_message ''c'' (Start_simulation ''d'' None) ex_started"

definition ex_stopped :: server where
  "ex_stopped = on_message ''c'' Stop_simulation ex_restarted"

definition ex_closed :: server where
  "ex_closed = on_close ''c'' ex_started"

section \<open>Properties\<close>

subsection \<open>Laws of the environment\<close>

lemma io_returns:
  "bnd (ret x) f = f x"
  "bnd Date_now g w = g (clock w (ci w)) (w\<lparr>ci := Suc (ci w)\<rparr>)"
  "bnd Math_random h w = h (Fin (rnd w (ri w))) (w\<lparr>ri := Suc (ri w)\<rparr>)"
  by (simp_all add: bnd_def ret_def Date_now_def Math_random_def)

lemma numProp_present:
  "properties c = Some ps \<Longrightarrow> numProp c k d = ret (jor (parseFloat (propValue ps k)) d)"
  by (simp add: numProp_def getProp_def bnd_def ret_def)

subsection \<open>Snapshot of a design without components\<close>

text \<open>
  C7. For a simulator whose component list is empty, \<open>simulate\<close> returns a snapshot (it
  does not throw) whose \<open>nodes\<close> and \<open>components\<close> mappings are empty and whose six
  performance fields are the number 0, neither NaN nor undefined. The snapshot carries the
  clock reading and the step counter; the counter is incremented.
\<close>

theorem simulate_zero_components:
  assumes "components s = Some []"
  shows "simulate s w =
           (Inr \<lparr>timestamp = clock w (ci w), r_timeStep = timeStep s, nodes = [],
                 r_components = [],
                 r_performance =
                   \<lparr>totalPower = Fin 0, maxVoltage = Fin 0, maxCurrent = Fin 0,
                    efficiency = Fin 0, propagationDelay = Fin 0, bandwidth = Fin 0\<rparr>\<rparr>,
            s\<lparr>timeStep := timeStep s + Fin 1\<rparr>, w\<lparr>ci := Suc (ci w)\<rparr>)"
  using assms
  by (simp add: simulate_def simulate_body_def io_returns zero_performance_def) (simp add: ret_def)

theorem simulate_zero_components_witness:
  "components (new_CircuitSimulator ''d'' (Some []) []) = Some [] \<and>
   fst (simulate (new_CircuitSimulator ''d'' (Some []) []) (fixed_world 1700 0)) =
     Inr \<lparr>timestamp = 1700, r_timeStep = Fin 0, nodes = [], r_components = [],
          r_performance =
            \<lparr>totalPower = Fin 0, maxVoltage = Fin 0, maxCurrent = Fin 0,
             efficiency = Fin 0, propagationDelay = Fin 0, bandwidth = Fin 0\<rparr>\<rparr>"
  using simulate_zero_components [of "new_CircuitSimulator ''d'' (Some []) []" "fixed_world 1700 0"]
  by (simp add: new_CircuitSimulator_def fixed_world_def)

subsection \<open>Status of a transistor\<close>

text \<open>
  C9. For a transistor, \<open>analyzeComponent\<close> does not throw and the status it returns is
  \<open>overcurrent\<close> when the current exceeds 0.1, whatever the voltage; otherwise
  \<open>overvoltage\<close> when the voltage exceeds 5; otherwise \<open>normal\<close>. The two checks run
  in the order voltage, current, and the later one overwrites the earlier.
\<close>

theorem transistor_status_order:
  assumes "ctype c = ''transistor''"
  shows "\<exists>a. analyzeComponent c v i w = (Inr a, w) \<and>
             status a = (if Fin 0.1 < i then Overcurrent
                         else if Fin 5 < v then Overvoltage else Normal)"
  using assms
  by (simp add: analyzeComponent_def ret_def transistor_status_def Let_def)

theorem transistor_status_order_witness:
  "ctype ex_transistor = ''transistor'' \<and>
   map_sum id status (fst (analyzeComponent ex_transistor (Fin 6) (Fin 0.2) (fixed_world 0 0)))
     = Inr Overcurrent"
  using transistor_status_order [of ex_transistor "Fin 6" "Fin 0.2" "fixed_world 0 0"]
  by (auto simp add: ex_transistor_def)

subsection \<open>Missing and unparseable numeric properties\<close>











lemma calculateFrequency_returns:
  "properties c = Some ps \<Longrightarrow> \<exists>x w'. calculateFrequency c w = (Inr x, w')"
  by (simp add: calculateFrequency_def numProp_present io_returns Let_def) (simp add: ret_def)






subsection \<open>A component whose evaluation throws\<close>

lemma tryComponent_returns: "\<exists>na w'. tryComponent c w = (Inr na, w')"
proof (cases "evalComponent c w")
  case (Pair r w')
  then show ?thesis
    by (cases r) (simp_all add: tryComponent_def try_catch_def ret_def)
qed

lemma forEach_component_returns: "\<exists>r w'. forEach_component cs acc w = (Inr r, w')"
proof (induction cs arbitrary: acc w)
  case Nil
  then show ?case by (simp add: ret_def)
next
  case (Cons c cs)
  obtain na w1 where t: "tryComponent c w = (Inr na, w1)"
    using tryComponent_returns by blast
  show ?case
    using Cons.IH [of "(AList.update (cid c) (fst na) (fst acc), AList.update (cid c) (snd na) (snd acc))" w1] t
    by (simp add: bnd_def)
qed

lemma calculateFrequency_throws:
  "ctype c = ''capacitor'' \<Longrightarrow> properties c = None \<Longrightarrow> calculateFrequency c w = (Inl TypeError, w)"
  by (simp add: calculateFrequency_def numProp_def getProp_def bnd_def throw_def)

lemma mapM_calculateFrequency_throws:
  assumes "c \<in> set cs" "ctype c = ''capacitor''" "properties c = None"
  shows "fst (mapM_io calculateFrequency cs w) = Inl TypeError"
  using assms(1)
proof (induction cs arbitrary: w)
  case Nil
  then show ?case by simp
next
  case (Cons a cs)
  obtain r w1 where a: "calculateFrequency a w = (r, w1)"
    by (cases "calculateFrequency a w")
  show ?case
  proof (cases r)
    case (Inl e)
    then show ?thesis using a by (cases e) (simp add: bnd_def)
  next
    case (Inr x)
    have "a \<noteq> c"
      using Inr a calculateFrequency_throws [OF assms(2,3), of w] by auto
    then have "c \<in> set cs" using Cons.prems by simp
    from Cons.IH [OF this, of w1] show ?thesis
      using a Inr by (cases "mapM_io calculateFrequency cs w1") (auto simp add: bnd_def ret_def)
  qed
qed

lemma simulate_throws:
  assumes "components s = Some cs" "c \<in> set cs" "ctype c = ''capacitor''" "properties c = None"
  shows "fst (simulate s w) = Inl TypeError"
proof -
  have ne: "cs \<noteq> []" using assms(2) by auto
  obtain nc w1 where f: "forEach_component cs ([], []) (w\<lparr>ci := Suc (ci w)\<rparr>) = (Inr nc, w1)"
    using forEach_component_returns by blast
  have b: "fst (calculateBandwidth s w1) = Inl TypeError"
    using mapM_calculateFrequency_throws [OF assms(2,3,4), of w1] ne
    by (cases "mapM_io calculateFrequency cs w1") (simp add: calculateBandwidth_def assms(1) bnd_def)
  show ?thesis
    using f b ne
    by (cases "calculateBandwidth s w1")
       (simp add: simulate_def simulate_body_def assms(1) io_returns calculatePropagationDelay_def
         Let_def bnd_def ret_def Date_now_def)
qed

lemma tryComponent_caught:
  "tryComponent ex_capacitor_bare w = (Inr (default_node, error_analysis), w\<lparr>ci := Suc (ci w)\<rparr>)"
  by (simp add: tryComponent_def try_catch_def evalComponent_def calculateNodeVoltage_def
      ex_capacitor_bare_def numProp_def getProp_def bnd_def throw_def ret_def Date_now_def)

lemma tryComponent_failed:
  assumes "properties c = None"
    and "ctype c \<in> set [''transistor'', ''resistor'', ''capacitor'', ''inductor'', ''diode'']"
  shows "tryComponent c w = (Inr (default_node, error_analysis), w\<lparr>ci := Suc (ci w)\<rparr>)"
  using assms
  by (auto simp add: tryComponent_def try_catch_def evalComponent_def calculateNodeVoltage_def
      numProp_def getProp_def bnd_def throw_def ret_def Date_now_def)

text \<open>
  C6, at a design of one resistor and one capacitor that has no \<open>properties\<close> object.
  Evaluating the capacitor throws; the \<open>catch\<close> block of \<open>simulate\<close> gives it the
  default node record and the error analysis. \<open>simulate\<close> then computes the bandwidth,
  which calls \<open>calculateFrequency\<close> on every component again, outside the \<open>try\<close>
  block: the call throws for the capacitor and \<open>simulate\<close> returns no snapshot.
\<close>

theorem capacitor_without_properties_aborts_snapshot:
  "fst (simulate (new_CircuitSimulator ''d'' (Some [ex_resistor, ex_capacitor_bare]) []) w)
     = Inl TypeError"
  by (rule simulate_throws [where c = ex_capacitor_bare and cs = "[ex_resistor, ex_capacitor_bare]"])
     (simp_all add: new_CircuitSimulator_def ex_capacitor_bare_def)

subsection \<open>Zero, NaN and infinite resistance\<close>

lemma jor_nonzero: "jor x (Fin 1000) \<noteq> Fin 0" "jor x (Fin 1000) \<noteq> NaN"
  by (simp_all add: jor_def truthy_def)

lemma resistor_voltage_infinite:
  assumes "r \<noteq> NaN" "\<not> isFinite r"
  shows "\<not> isFinite (baseVoltage * (Fin 1 - r / Fin 10000) + Math_sqrt (Fin 4 * Fin (1.38 / 10 ^ 23) * Fin 300 * Fin 1000) * Fin x)"
  using assms by (cases r) (simp_all add: baseVoltage_def minus_jsnum_def sgn_inf_def)

text \<open>
  C10, as amended. A numeric property whose value parses to exactly 0 is replaced by the
  constant after \<open>||\<close>. For a resistor the resistance used is therefore never 0 and never
  NaN, and the current is the voltage divided by it: the division is never by zero. The
  resistance can be an infinity, and then the node voltage is not a finite number (so a
  finite node voltage needs a finite resistance).
\<close>

theorem resistor_divisor_never_zero:
  assumes "ctype c = ''resistor''" and "properties c = Some ps"
  shows "(parseFloat (propValue ps k) = Fin 0 \<longrightarrow> numProp c k d w = (Inr d, w))
       \<and> jor (parseFloat (propValue ps ''resistance'')) (Fin 1000) \<noteq> Fin 0
       \<and> jor (parseFloat (propValue ps ''resistance'')) (Fin 1000) \<noteq> NaN
       \<and> calculateCurrent c v w
           = (Inr (v / jor (parseFloat (propValue ps ''resistance'')) (Fin 1000)), w)
       \<and> (\<exists>x w'. calculateNodeVoltage c w = (Inr x, w')
             \<and> (isFinite x \<longrightarrow> isFinite (jor (parseFloat (propValue ps ''resistance'')) (Fin 1000))))"
proof -
  let ?r = "jor (parseFloat (propValue ps ''resistance'')) (Fin 1000)"
  have a: "parseFloat (propValue ps k) = Fin 0 \<longrightarrow> numProp c k d w = (Inr d, w)"
    using assms(2) by (simp add: numProp_present jor_def truthy_def ret_def)
  have b: "calculateCurrent c v w = (Inr (v / ?r), w)"
    using assms by (simp add: calculateCurrent_def numProp_present io_returns) (simp add: ret_def)
  have c: "calculateNodeVoltage c w =
            (Inr (baseVoltage * (Fin 1 - ?r / Fin 10000)
                  + Math_sqrt (Fin 4 * Fin (1.38 / 10 ^ 23) * Fin 300 * Fin 1000) * Fin (rnd w (ri w))),
             w\<lparr>ci := Suc (ci w), ri := Suc (ri w)\<rparr>)"
    using assms
    by (simp add: calculateNodeVoltage_def numProp_present io_returns Let_def del: Math_sqrt.simps times_jsnum.simps)
       (simp add: ret_def)
  show ?thesis
    using a b c jor_nonzero [of "parseFloat (propValue ps ''resistance'')"]
      resistor_voltage_infinite [of ?r "rnd w (ri w)"]
    by auto
qed

lemmas parse_defs = parseFloatStr_def parseUnsigned_def parseExponent_def isWhite_def isDigit_def
  natOfDigits_def digitVal_def

theorem resistor_divisor_never_zero_witness:
  "ctype ex_resistor_zero = ''resistor''
   \<and> properties ex_resistor_zero = Some [(''resistance'', JStr ''0'')]
   \<and> parseFloat (propValue [(''resistance'', JStr ''0'')] ''resistance'') = Fin 0
   \<and> numProp ex_resistor_zero ''resistance'' (Fin 1000) (fixed_world 0 0)
       = (Inr (Fin 1000), fixed_world 0 0)
   \<and> calculateCurrent ex_resistor_zero (Fin 3) (fixed_world 0 0)
       = (Inr (Fin 0.003), fixed_world 0 0)"
proof -
  have h1: "ctype ex_resistor_zero = ''resistor''"
    by (simp add: ex_resistor_zero_def)
  have h2: "properties ex_resistor_zero = Some [(''resistance'', JStr ''0'')]"
    by (simp add: ex_resistor_zero_def)
  have p: "parseFloat (propValue [(''resistance'', JStr ''0'')] ''resistance'') = Fin 0"
    by (simp add: propValue_def parse_defs)
  show ?thesis
    using resistor_divisor_never_zero [OF h1 h2, of "''resistance''" "Fin 1000" "fixed_world 0 0" "Fin 3"]
      h1 h2 p
    by (simp add: jor_def truthy_def)
qed

text \<open>
  C10 as stated fails: for the resistance \<open>Infinity\<close> the node voltage is minus infinity
  and the current, the power and the temperature are NaN.
\<close>

theorem resistor_not_always_finite:
  "map_sum id fst (fst (evalComponent ex_resistor_inf (fixed_world 0 0)))
     = Inr \<lparr>voltage = NInf, current = NaN, power = NaN, temperature = NaN, frequency = Fin 1000\<rparr>
   \<and> \<not> isFinite NInf \<and> \<not> isFinite NaN"
  by (simp add: evalComponent_def calculateNodeVoltage_def calculateCurrent_def
      calculateTemperature_def calculateFrequency_def analyzeComponent_def ex_resistor_inf_def
      numProp_def getProp_def propValue_def parse_defs jor_def truthy_def baseVoltage_def
      minus_jsnum_def sgn_inf_def fixed_world_def bnd_def ret_def Date_now_def Math_random_def
      Let_def)

subsection \<open>Batch runner\<close>

lemma bnd_laws:
  "bnd (bnd m f) g = bnd m (\<lambda>x. bnd (f x) g)"
  "bnd (ret x) f = f x"
  "bnd (throw e) f' = throw e"
  "bnd (if b then m1 else m2) g' = (if b then bnd m1 g' else bnd m2 g')"
  by (auto simp add: bnd_def ret_def throw_def fun_eq_iff split: prod.splits sum.splits)

lemma bnd_ret_map:
  "bnd m (\<lambda>r. ret (f r)) w = (map_sum id f (fst (m w)), snd (m w))"
  by (cases "m w") (auto simp add: bnd_def ret_def split: sum.splits)

lemma simulate_body_bnd:
  assumes "components s2 = components s" and "connections s2 = connections s"
  shows "simulate_body s2 step2 = bnd (simulate_body s step) (\<lambda>r. ret (r\<lparr>r_timeStep := step2\<rparr>))"
  using assms
  by (simp add: simulate_body_def calculatePropagationDelay_def calculateBandwidth_def
      Let_def bnd_laws cong: if_cong split: option.splits)

lemma simulate_body_step:
  assumes "components s2 = components s" and "connections s2 = connections s"
  shows "simulate_body s2 step2 w =
           (map_sum id (r_timeStep_update (\<lambda>_. step2)) (fst (simulate_body s step w)),
            snd (simulate_body s step w))"
  by (simp only: simulate_body_bnd [OF assms, of step2 step] bnd_ret_map)

lemma calculateFrequency_ok:
  assumes "ctype c = ''capacitor'' \<longrightarrow> properties c \<noteq> None"
  shows "\<exists>x w'. calculateFrequency c w = (Inr x, w')"
proof (cases "properties c")
  case None
  then show ?thesis using assms
    by (simp add: calculateFrequency_def io_returns Let_def) (simp add: ret_def)
next
  case (Some ps)
  then show ?thesis
    by (rule calculateFrequency_returns)
qed

lemma mapM_calculateFrequency_ok:
  assumes "\<forall>c\<in>set cs. ctype c = ''capacitor'' \<longrightarrow> properties c \<noteq> None"
  shows "\<exists>xs w'. mapM_io calculateFrequency cs w = (Inr xs, w')"
  using assms
proof (induction cs arbitrary: w)
  case Nil
  then show ?case by (simp add: ret_def)
next
  case (Cons a cs)
  obtain x w1 where a: "calculateFrequency a w = (Inr x, w1)"
    using calculateFrequency_ok [of a w] Cons.prems by auto
  obtain xs w2 where b: "mapM_io calculateFrequency cs w1 = (Inr xs, w2)"
    using Cons.IH [of w1] Cons.prems by auto
  show ?case using a b by (simp add: bnd_def ret_def)
qed

lemma simulate_body_returns:
  assumes "components s = Some cs"
    and "\<forall>c\<in>set cs. ctype c = ''capacitor'' \<longrightarrow> properties c \<noteq> None"
  shows "\<exists>r w'. simulate_body s step w = (Inr r, w') \<and> r_timeStep r = step"
proof (cases "cs = []")
  case True
  then show ?thesis using assms(1)
    by (simp add: simulate_body_def io_returns) (simp add: ret_def)
next
  case False
  obtain nc w1 where f: "forEach_component cs ([], []) (w\<lparr>ci := Suc (ci w)\<rparr>) = (Inr nc, w1)"
    using forEach_component_returns by blast
  obtain xs w2 where m: "mapM_io calculateFrequency cs w1 = (Inr xs, w2)"
    using mapM_calculateFrequency_ok [OF assms(2)] by blast
  show ?thesis
    using False f m assms(1)
    by (simp add: simulate_body_def calculatePropagationDelay_def calculateBandwidth_def
        Let_def bnd_def ret_def Date_now_def)
qed

lemma simulate_unfold:
  "simulate s w = (fst (simulate_body s (timeStep s) w), s\<lparr>timeStep := timeStep s + Fin 1\<rparr>,
                   snd (simulate_body s (timeStep s) w))"
  by (simp add: simulate_def Let_def)

lemma batch_loop_done: "\<not> i < steps \<Longrightarrow> batch_loop i steps dt s acc w = (Inr acc, s, w)"
  by (subst batch_loop.simps) simp

lemma batch_loop_step:
  assumes "i < steps"
  shows "batch_loop i steps dt s acc w =
     (case fst (simulate_body s (Fin (real i) * dt) w) of
        Inl e \<Rightarrow> (Inl e, s\<lparr>timeStep := Fin (real i) * dt + Fin 1\<rparr>, snd (simulate_body s (Fin (real i) * dt) w))
      | Inr r \<Rightarrow> batch_loop (Suc i) steps dt (s\<lparr>timeStep := Fin (real i) * dt + Fin 1\<rparr>) (acc @ [r])
                  (snd (simulate_body s (Fin (real i) * dt) w)))"
proof -
  have b: "simulate_body (s\<lparr>timeStep := Fin (real i) * dt\<rparr>) (Fin (real i) * dt) w
           = simulate_body s (Fin (real i) * dt) w"
    using simulate_body_step [of "s\<lparr>timeStep := Fin (real i) * dt\<rparr>" s "Fin (real i) * dt" w "Fin (real i) * dt"]
      simulate_body_step [of s s "Fin (real i) * dt" w "Fin (real i) * dt"]
    by simp
  show ?thesis
    using assms
    by (subst batch_loop.simps) (simp add: simulate_unfold b split: sum.splits)
qed

lemma batch_loop_spec:
  assumes "components s = Some cs"
    and "\<forall>c\<in>set cs. ctype c = ''capacitor'' \<longrightarrow> properties c \<noteq> None"
  shows "\<exists>snaps s' w'. batch_loop i steps dt s acc w = (Inr snaps, s', w')
           \<and> length snaps = length acc + (steps - i)
           \<and> take (length acc) snaps = acc
           \<and> (\<forall>j<steps - i. r_timeStep (snaps ! (length acc + j)) = Fin (real (i + j)) * dt)"
  using assms(1)
proof (induction "steps - i" arbitrary: i s acc w)
  case 0
  then show ?case by (simp add: batch_loop_done)
next
  case (Suc n)
  have lt: "i < steps" using Suc.hyps(2) by simp
  obtain r w1 where r: "simulate_body s (Fin (real i) * dt) w = (Inr r, w1)"
      and rt: "r_timeStep r = Fin (real i) * dt"
    using simulate_body_returns [OF Suc.prems assms(2)] by blast
  let ?s2 = "s\<lparr>timeStep := Fin (real i) * dt + Fin 1\<rparr>"
  have n: "n = steps - Suc i" using Suc.hyps(2) by simp
  have c2: "components ?s2 = Some cs" using Suc.prems by simp
  obtain snaps s' w' where
    run: "batch_loop (Suc i) steps dt ?s2 (acc @ [r]) w1 = (Inr snaps, s', w')"
    and len: "length snaps = length (acc @ [r]) + (steps - Suc i)"
    and tk: "take (length (acc @ [r])) snaps = acc @ [r]"
    and ts: "\<forall>j<steps - Suc i. r_timeStep (snaps ! (length (acc @ [r]) + j)) = Fin (real (Suc i + j)) * dt"
    using Suc.hyps(1) [OF n c2, of "acc @ [r]" w1] by blast
  have run0: "batch_loop i steps dt s acc w = (Inr snaps, s', w')"
    using run r by (simp add: batch_loop_step [OF lt])
  have len0: "length snaps = length acc + (steps - i)"
    using len lt by simp
  have tk1: "take (Suc (length acc)) snaps = acc @ [r]"
    using tk by simp
  have tk0: "take (length acc) snaps = acc"
  proof -
    have "take (length acc) (take (Suc (length acc)) snaps) = take (length acc) (acc @ [r])"
      using tk1 by simp
    then show ?thesis by simp
  qed
  have at: "snaps ! length acc = r"
  proof -
    have "take (Suc (length acc)) snaps ! length acc = (acc @ [r]) ! length acc"
      using tk1 by simp
    then show ?thesis by simp
  qed
  have ts0: "r_timeStep (snaps ! (length acc + j)) = Fin (real (i + j)) * dt" if "j < steps - i" for j
  proof (cases j)
    case 0
    then show ?thesis using at rt by simp
  next
    case (Suc j')
    then have "j' < steps - Suc i" using that by simp
    then show ?thesis using ts Suc by simp
  qed
  show ?case using run0 len0 tk0 ts0 by blast
qed

lemma batch_loop_dt:
  assumes "components s2 = components s" and "connections s2 = connections s"
    and "map readings acc2 = map readings acc"
  shows "map_sum id (map readings) (fst (batch_loop i steps dt2 s2 acc2 w))
           = map_sum id (map readings) (fst (batch_loop i steps dt s acc w))
         \<and> snd (snd (batch_loop i steps dt2 s2 acc2 w)) = snd (snd (batch_loop i steps dt s acc w))"
  using assms
proof (induction "steps - i" arbitrary: i s s2 acc acc2 w)
  case 0
  then show ?case by (simp add: batch_loop_done)
next
  case (Suc n)
  have lt: "i < steps" using Suc.hyps(2) by simp
  have n: "n = steps - Suc i" using Suc.hyps(2) by simp
  note st = simulate_body_step [OF Suc.prems(1) Suc.prems(2), of "Fin (real i) * dt2" w "Fin (real i) * dt"]
  obtain x w1 where b: "simulate_body s (Fin (real i) * dt) w = (x, w1)"
    by (cases "simulate_body s (Fin (real i) * dt) w")
  show ?case
  proof (cases x)
    case (Inl e)
    then show ?thesis using b st by (simp add: batch_loop_step [OF lt])
  next
    case (Inr r)
    let ?r2 = "r\<lparr>r_timeStep := Fin (real i) * dt2\<rparr>"
    have acc': "map readings (acc2 @ [?r2]) = map readings (acc @ [r])"
      using Suc.prems(3) by (simp add: readings_def)
    have ih: "map_sum id (map readings)
                (fst (batch_loop (Suc i) steps dt2 (s2\<lparr>timeStep := Fin (real i) * dt2 + Fin 1\<rparr>) (acc2 @ [?r2]) w1))
              = map_sum id (map readings)
                (fst (batch_loop (Suc i) steps dt (s\<lparr>timeStep := Fin (real i) * dt + Fin 1\<rparr>) (acc @ [r]) w1))
            \<and> snd (snd (batch_loop (Suc i) steps dt2 (s2\<lparr>timeStep := Fin (real i) * dt2 + Fin 1\<rparr>) (acc2 @ [?r2]) w1))
              = snd (snd (batch_loop (Suc i) steps dt (s\<lparr>timeStep := Fin (real i) * dt + Fin 1\<rparr>) (acc @ [r]) w1))"
      by (rule Suc.hyps(1) [OF n _ _ acc']) (simp_all add: Suc.prems)
    show ?thesis
      using b st Inr ih by (simp add: batch_loop_step [OF lt])
  qed
qed

text \<open>
  C4, as amended. Let no capacitor of the design lack its \<open>properties\<close> object (so that
  \<open>simulate\<close> does not throw). For every number of steps and every step size the batch
  run returns a sequence of exactly \<open>steps\<close> snapshots, empty when \<open>steps\<close> is 0, and
  the \<open>timeStep\<close> field of the i-th snapshot is \<open>i * stepSize\<close>: the loop writes that
  product to the simulator's counter before each call. Nothing else in a snapshot depends
  on the step size: with the same clock and random source, any other step size gives the
  same timestamps, nodes, analyses and performance, because the voltage laws read
  \<open>Date.now()\<close> and never the counter.
\<close>

theorem batch_run_steps_and_wall_clock:
  assumes "\<forall>c\<in>set comps. ctype c = ''capacitor'' \<longrightarrow> properties c \<noteq> None"
  shows "\<exists>snaps w'. runBatch (Some comps) conns did steps dt w = (Inr snaps, w')
           \<and> length snaps = steps
           \<and> (\<forall>i<steps. r_timeStep (snaps ! i) = Fin (real i) * dt)
           \<and> (\<forall>dt2. \<exists>snaps2. runBatch (Some comps) conns did steps dt2 w = (Inr snaps2, w')
                  \<and> map readings snaps2 = map readings snaps)"
proof -
  let ?s = "new_CircuitSimulator did (Some comps) conns"
  have cs: "components ?s = Some comps"
    by (simp add: new_CircuitSimulator_def)
  obtain snaps s' w' where run: "batch_loop 0 steps dt ?s [] w = (Inr snaps, s', w')"
      and len: "length snaps = steps"
      and ts: "\<forall>j<steps. r_timeStep (snaps ! j) = Fin (real j) * dt"
    using batch_loop_spec [OF cs assms, of 0 steps dt "[]" w] by auto
  have other: "\<exists>snaps2. runBatch (Some comps) conns did steps dt2 w = (Inr snaps2, w')
                 \<and> map readings snaps2 = map readings snaps" for dt2
  proof -
    have eq: "map_sum id (map readings) (fst (batch_loop 0 steps dt2 ?s [] w)) = Inr (map readings snaps)"
        and wd: "snd (snd (batch_loop 0 steps dt2 ?s [] w)) = w'"
      using batch_loop_dt [of ?s ?s "[]" "[]" 0 steps dt2 w dt] run by simp_all
    obtain x s2 w2 where r2: "batch_loop 0 steps dt2 ?s [] w = (x, s2, w2)"
      by (cases "batch_loop 0 steps dt2 ?s [] w") auto
    show ?thesis
      using eq wd r2 by (cases x) (simp_all add: runBatch_def)
  qed
  show ?thesis
    using run len ts other by (simp add: runBatch_def)
qed

theorem batch_run_steps_and_wall_clock_witness:
  "properties ex_capacitor \<noteq> None
   \<and> map_sum id (map r_timeStep)
        (fst (runBatch (Some [ex_capacitor]) [] ''d'' 2 (Fin 0.001) (fixed_world 1700000001000 0)))
      = Inr [Fin 0, Fin 0.001]"
proof -
  have h: "\<forall>c\<in>set [ex_capacitor]. ctype c = ''capacitor'' \<longrightarrow> properties c \<noteq> None"
    by (simp add: ex_capacitor_def)
  obtain snaps w' where
    run: "runBatch (Some [ex_capacitor]) [] ''d'' 2 (Fin 0.001) (fixed_world 1700000001000 0) = (Inr snaps, w')"
    and len: "length snaps = 2"
    and ts: "\<forall>i<2. r_timeStep (snaps ! i) = Fin (real i) * Fin 0.001"
    using batch_run_steps_and_wall_clock [OF h, of "[]" "''d''" 2 "Fin 0.001" "fixed_world 1700000001000 0"]
    by blast
  obtain a b where ab: "snaps = [a, b]"
    using len by (cases snaps; cases "tl snaps") auto
  have "r_timeStep a = Fin 0" "r_timeStep b = Fin 0.001"
    using ts ab by (auto simp add: less_Suc_eq numeral_2_eq_2)
  then show ?thesis using run ab by (simp add: ex_capacitor_def)
qed

lemma batch_voltage_at_clock:
  "map_sum id (map node_voltages)
     (fst (runBatch (Some [ex_capacitor]) [] ''d'' 1 (Fin 0.001) (fixed_world t 0)))
   = Inr [[Fin (3.3 * (1 - exp (- (real (t mod 2000) / 2000) / 1000)))]]"
  by (simp add: runBatch_def batch_loop_step batch_loop_done new_CircuitSimulator_def
      simulate_body_def tryComponent_def try_catch_def evalComponent_def calculateNodeVoltage_def
      calculateCurrent_def calculateTemperature_def calculateFrequency_def analyzeComponent_def
      calculatePropagationDelay_def calculateBandwidth_def
      ex_capacitor_def numProp_def getProp_def propValue_def parse_defs jor_def truthy_def
      baseVoltage_def Math_PI_def fixed_world_def bnd_def ret_def Date_now_def Math_random_def
      Let_def node_voltages_def minus_jsnum_def)

text \<open>
  C4 as stated fails. One capacitor (capacitance 1), one step, step size 0.001: the
  simulated time of the only snapshot is \<open>0 * 0.001 = 0\<close>, where the charging law
  \<open>3.3 * (1 - exp(-phase / (1000 * C)))\<close> is 0. The voltage the batch run returns
  follows the wall clock instead: it is \<open>3.3 * (1 - exp(-1/2000))\<close> when the clock
  reads 1700000001000 and 0 when it reads 1700000000000.
\<close>

theorem batch_voltage_follows_wall_clock:
  "map_sum id (map node_voltages)
     (fst (runBatch (Some [ex_capacitor]) [] ''d'' 1 (Fin 0.001) (fixed_world 1700000001000 0)))
     = Inr [[Fin (3.3 * (1 - exp (- (1 / 2000))))]]
   \<and> map_sum id (map node_voltages)
     (fst (runBatch (Some [ex_capacitor]) [] ''d'' 1 (Fin 0.001) (fixed_world 1700000000000 0)))
     = Inr [[Fin 0]]
   \<and> Fin (3.3 * (1 - exp (- (1 / 2000)))) \<noteq> Fin 0"
  using batch_voltage_at_clock [of 1700000001000] batch_voltage_at_clock [of 1700000000000]
  by simp

subsection \<open>Sessions, updates, stop and close\<close>

lemmas server_defs = on_message_def handleWebSocketMessage_def startRealTimeSimulation_def
  stopRealTimeSimulation_def updateComponentInSimulation_def on_connection_def on_close_def
  createDesign_def init_server_def send_def default_config_def Let_def

lemma ex_started_facts:
  "activeSimulations ex_started ''c'' = Some \<lparr>sim_ref = 1, interval = Some 2, sim_config = default_config\<rparr>"
  "intervals ex_started 2 = Some (''c'', 1)"
  "timeouts ex_started 3 = Some ''c''"
  "simulators ex_started 1 = Some \<lparr>obj_designId = ''d'', obj_components = 0, obj_connections = [],
       obj_isRunning = True, obj_timeStep = Fin 0\<rparr>"
  "heap ex_started 0 = Some [ex_resistor]"
  "fresh ex_started = 4"
  "clients ex_started = {''c''}"
  by (simp_all add: ex_started_def ex_server_def server_defs)

text \<open>
  C1 as stated fails. A client starts a session on the stored design and updates the
  resistance of its resistor to 2000: the stored design's component list now holds 2000,
  and the simulator of a fresh session, started afterwards for another client from the same
  stored design, holds 2000 as well.
\<close>

theorem update_changes_stored_design:
  "stored_components ex_started ''d'' = Some [ex_resistor]
   \<and> stored_components ex_updated ''d''
       = Some [ex_resistor\<lparr>properties := Some [(''resistance'', JStr ''2000''), (''power'', JStr ''0.25'')]\<rparr>]
   \<and> session_components ex_fresh ''c2''
       = Some [ex_resistor\<lparr>properties := Some [(''resistance'', JStr ''2000''), (''power'', JStr ''0.25'')]\<rparr>]"
  by (simp add: stored_components_def session_components_def ex_fresh_def ex_updated_def
      ex_started_def ex_server_def server_defs ex_resistor_def Object_assign_def)

lemma update_unknown_component:
  assumes "activeSimulations srv clientId = Some sim"
    and "simulators srv (sim_ref sim) = Some so"
    and "heap srv (obj_components so) = Some arr"
    and "find (\<lambda>c. cid c = k) arr = None"
  shows "updateComponentInSimulation clientId k props srv = Inr srv"
  using assms by (simp add: updateComponentInSimulation_def)

lemma update_without_properties:
  assumes "activeSimulations srv clientId = Some sim"
    and "simulators srv (sim_ref sim) = Some so"
    and "heap srv (obj_components so) = Some arr"
    and "find (\<lambda>c. cid c = k) arr = Some c"
    and "properties c = None"
  shows "updateComponentInSimulation clientId k props srv = Inl TypeError"
    and "on_message clientId (Update_component k props) srv
           = send clientId (ErrorMsg ''Invalid JSON'') srv"
  using assms
  by (simp_all add: updateComponentInSimulation_def on_message_def handleWebSocketMessage_def)

lemma update_merges:
  assumes "activeSimulations srv clientId = Some sim"
    and "simulators srv (sim_ref sim) = Some so"
    and "heap srv (obj_components so) = Some arr"
    and "find (\<lambda>c. cid c = k) arr = Some c"
    and "properties c = Some ps"
  shows "\<exists>srv2. updateComponentInSimulation clientId k props srv = Inr srv2
          \<and> session_components srv2 clientId
              = Some (replace_first k (c\<lparr>properties := Some (Object_assign ps props)\<rparr>) arr)
          \<and> (\<forall>did. stored_array srv2 did = stored_array srv did
                \<and> stored_components srv2 did
                    = (if stored_array srv did = session_array srv clientId
                       then session_components srv2 clientId else stored_components srv did)
                \<and> (\<forall>c2 cfg2. designs srv did \<noteq> None \<longrightarrow>
                      session_components (startRealTimeSimulation c2 did cfg2 srv2) c2
                        = stored_components srv2 did))"
  using assms
  by (auto simp add: updateComponentInSimulation_def startRealTimeSimulation_def send_def Let_def
      session_components_def stored_components_def session_array_def stored_array_def
      split: option.splits)

lemma start_shares_array:
  assumes "designs srv0 did \<noteq> None"
  shows "session_array (startRealTimeSimulation c0 did cfg srv0) c0
           = stored_array (startRealTimeSimulation c0 did cfg srv0) did"
    and "stored_array (startRealTimeSimulation c0 did cfg srv0) did = stored_array srv0 did"
  using assms
  by (auto simp add: startRealTimeSimulation_def send_def Let_def session_array_def stored_array_def)

lemma put_replaces_array:
  assumes "activeSimulations srv clientId = Some sim"
    and "simulators srv (sim_ref sim) = Some so"
    and "heap srv (obj_components so) = Some arr"
    and "designs srv did \<noteq> None"
    and "heap srv (fresh srv) = None"
  shows "\<exists>srv1. updateDesign did nm (Some comps) conns srv = Some srv1
           \<and> stored_components srv1 did = Some comps
           \<and> session_components srv1 clientId = Some arr
           \<and> stored_array srv1 did \<noteq> session_array srv1 clientId
           \<and> (\<forall>k props srv2. updateComponentInSimulation clientId k props srv1 = Inr srv2
                  \<longrightarrow> stored_components srv2 did = Some comps)"
  using assms
  by (auto simp add: updateDesign_def updateComponentInSimulation_def send_def Let_def
      session_components_def stored_components_def session_array_def stored_array_def
      split: option.splits if_splits)

text \<open>
  C1, as amended. The simulator of a session holds a reference to a component array, not a
  copy. For every active session, \<open>updateComponentInSimulation\<close> changes nothing when the
  session's array has no component with the given id; it throws a TypeError, which the
  message handler answers with an error message, when the first such component has no
  \<open>properties\<close> object; otherwise it merges the given key/values into that component in
  the session's array. No design is given another array by the update. A stored design
  whose \<open>components\<close> is the session's array changes with the update, every other stored
  design keeps its component list, and the simulator of a session started afterwards from
  a stored design holds that design's list as it is after the update. A design's array
  and the array of a session started from it are the same array when the session starts;
  after \<open>PUT /api/designs/:id\<close> with a \<open>components\<close> field (the next address being
  unused) the design holds a new array and the session still holds the old one, and an
  update of the session then leaves the stored design as the PUT made it.
\<close>

theorem update_writes_session_array:
  assumes "activeSimulations srv clientId = Some sim"
    and "simulators srv (sim_ref sim) = Some so"
    and "heap srv (obj_components so) = Some arr"
  shows "(find (\<lambda>c. cid c = k) arr = None \<longrightarrow>
            updateComponentInSimulation clientId k props srv = Inr srv)
       \<and> (\<forall>c. find (\<lambda>c. cid c = k) arr = Some c \<and> properties c = None \<longrightarrow>
              updateComponentInSimulation clientId k props srv = Inl TypeError
            \<and> on_message clientId (Update_component k props) srv
                = send clientId (ErrorMsg ''Invalid JSON'') srv)
       \<and> (\<forall>c ps. find (\<lambda>c. cid c = k) arr = Some c \<and> properties c = Some ps \<longrightarrow>
              (\<exists>srv2. updateComponentInSimulation clientId k props srv = Inr srv2
                 \<and> session_components srv2 clientId
                     = Some (replace_first k (c\<lparr>properties := Some (Object_assign ps props)\<rparr>) arr)
                 \<and> (\<forall>did. stored_array srv2 did = stored_array srv did
                       \<and> stored_components srv2 did
                           = (if stored_array srv did = session_array srv clientId
                              then session_components srv2 clientId else stored_components srv did)
                       \<and> (\<forall>c2 cfg2. designs srv did \<noteq> None \<longrightarrow>
                             session_components (startRealTimeSimulation c2 did cfg2 srv2) c2
                               = stored_components srv2 did))))
       \<and> (\<forall>srv0 c0 did cfg. designs srv0 did \<noteq> None \<longrightarrow>
              session_array (startRealTimeSimulation c0 did cfg srv0) c0
                = stored_array (startRealTimeSimulation c0 did cfg srv0) did
            \<and> stored_array (startRealTimeSimulation c0 did cfg srv0) did = stored_array srv0 did)
       \<and> (\<forall>did nm comps conns. designs srv did \<noteq> None \<and> heap srv (fresh srv) = None \<longrightarrow>
              (\<exists>srv1. updateDesign did nm (Some comps) conns srv = Some srv1
                 \<and> stored_components srv1 did = Some comps
                 \<and> session_components srv1 clientId = Some arr
                 \<and> stored_array srv1 did \<noteq> session_array srv1 clientId
                 \<and> (\<forall>k props srv2. updateComponentInSimulation clientId k props srv1 = Inr srv2
                        \<longrightarrow> stored_components srv2 did = Some comps)))"
proof -
  have a: "find (\<lambda>c. cid c = k) arr = None \<longrightarrow>
            updateComponentInSimulation clientId k props srv = Inr srv"
    using update_unknown_component [OF assms] by blast
  have b: "\<forall>c. find (\<lambda>c. cid c = k) arr = Some c \<and> properties c = None \<longrightarrow>
              updateComponentInSimulation clientId k props srv = Inl TypeError
            \<and> on_message clientId (Update_component k props) srv
                = send clientId (ErrorMsg ''Invalid JSON'') srv"
    using update_without_properties [OF assms] by blast
  have c: "\<forall>c ps. find (\<lambda>c. cid c = k) arr = Some c \<and> properties c = Some ps \<longrightarrow>
              (\<exists>srv2. updateComponentInSimulation clientId k props srv = Inr srv2
                 \<and> session_components srv2 clientId
                     = Some (replace_first k (c\<lparr>properties := Some (Object_assign ps props)\<rparr>) arr)
                 \<and> (\<forall>did. stored_array srv2 did = stored_array srv did
                       \<and> stored_components srv2 did
                           = (if stored_array srv did = session_array srv clientId
                              then session_components srv2 clientId else stored_components srv did)
                       \<and> (\<forall>c2 cfg2. designs srv did \<noteq> None \<longrightarrow>
                             session_components (startRealTimeSimulation c2 did cfg2 srv2) c2
                               = stored_components srv2 did)))"
    using update_merges [OF assms] by blast
  have d: "\<forall>srv0 c0 did cfg. designs srv0 did \<noteq> None \<longrightarrow>
              session_array (startRealTimeSimulation c0 did cfg srv0) c0
                = stored_array (startRealTimeSimulation c0 did cfg srv0) did
            \<and> stored_array (startRealTimeSimulation c0 did cfg srv0) did = stored_array srv0 did"
    using start_shares_array by blast
  have e: "\<forall>did nm comps conns. designs srv did \<noteq> None \<and> heap srv (fresh srv) = None \<longrightarrow>
              (\<exists>srv1. updateDesign did nm (Some comps) conns srv = Some srv1
                 \<and> stored_components srv1 did = Some comps
                 \<and> session_components srv1 clientId = Some arr
                 \<and> stored_array srv1 did \<noteq> session_array srv1 clientId
                 \<and> (\<forall>k props srv2. updateComponentInSimulation clientId k props srv1 = Inr srv2
                        \<longrightarrow> stored_components srv2 did = Some comps))"
    using put_replaces_array [OF assms] by blast
  show ?thesis
    using a b c d e by (intro conjI)
qed

lemma ex_replaced_facts:
  "stored_components ex_replaced ''d'' = Some [ex_resistor]"
  "session_components ex_replaced ''c'' = Some [ex_resistor]"
  "stored_array ex_replaced ''d'' = Some 4"
  "session_array ex_replaced ''c'' = Some 0"
  by (simp_all add: ex_replaced_def updateDesign_def ex_started_def ex_server_def server_defs
      stored_components_def session_components_def stored_array_def session_array_def)

text \<open>
  At the concrete server: after a PUT has replaced the design's components, the update
  changes the session's list and leaves the stored design as the PUT made it.
\<close>

lemma update_after_put_leaves_store:
  "stored_components ex_replaced_updated ''d'' = Some [ex_resistor]
   \<and> session_components ex_replaced_updated ''c''
       = Some [ex_resistor\<lparr>properties := Some [(''resistance'', JStr ''2000''), (''power'', JStr ''0.25'')]\<rparr>]"
  by (simp add: ex_replaced_updated_def ex_replaced_def updateDesign_def ex_started_def
      ex_server_def server_defs stored_components_def session_components_def ex_resistor_def
      Object_assign_def)

theorem update_writes_session_array_witness:
  "activeSimulations ex_started ''c'' = Some \<lparr>sim_ref = 1, interval = Some 2, sim_config = default_config\<rparr>
   \<and> simulators ex_started 1 = Some \<lparr>obj_designId = ''d'', obj_components = 0, obj_connections = [],
        obj_isRunning = True, obj_timeStep = Fin 0\<rparr>
   \<and> heap ex_started 0 = Some [ex_resistor]
   \<and> find (\<lambda>c. cid c = 2) [ex_resistor] = Some ex_resistor
   \<and> properties ex_resistor = Some [(''resistance'', JStr ''1000''), (''power'', JStr ''0.25'')]
   \<and> stored_array ex_started ''d'' = session_array ex_started ''c''
   \<and> map_sum id (\<lambda>srv2. stored_components srv2 ''d'')
        (updateComponentInSimulation ''c'' 2 [(''resistance'', JStr ''2000'')] ex_started)
       = Inr (Some [ex_resistor\<lparr>properties := Some [(''resistance'', JStr ''2000''), (''power'', JStr ''0.25'')]\<rparr>])"
proof -
  have h3: "heap ex_started (obj_components \<lparr>obj_designId = ''d'', obj_components = 0,
              obj_connections = [], obj_isRunning = True, obj_timeStep = Fin 0\<rparr>) = Some [ex_resistor]"
    by (simp add: ex_started_facts)
  have h2: "simulators ex_started (sim_ref \<lparr>sim_ref = 1, interval = Some 2, sim_config = default_config\<rparr>)
              = Some \<lparr>obj_designId = ''d'', obj_components = 0, obj_connections = [],
                  obj_isRunning = True, obj_timeStep = Fin 0\<rparr>"
    using ex_started_facts(4) by simp
  have f: "find (\<lambda>c. cid c = 2) [ex_resistor] = Some ex_resistor"
    by (simp add: ex_resistor_def)
  have p: "properties ex_resistor = Some [(''resistance'', JStr ''1000''), (''power'', JStr ''0.25'')]"
    by (simp add: ex_resistor_def)
  have sh: "stored_array ex_started ''d'' = session_array ex_started ''c''"
    by (simp add: stored_array_def session_array_def ex_started_def ex_server_def server_defs)
  from update_writes_session_array [OF ex_started_facts(1) h2 h3, of 2 "[(''resistance'', JStr ''2000'')]"]
  have "\<forall>c ps. find (\<lambda>c. cid c = 2) [ex_resistor] = Some c \<and> properties c = Some ps \<longrightarrow>
          (\<exists>srv2. updateComponentInSimulation ''c'' 2 [(''resistance'', JStr ''2000'')] ex_started = Inr srv2
             \<and> session_components srv2 ''c''
                 = Some (replace_first 2 (c\<lparr>properties := Some (Object_assign ps [(''resistance'', JStr ''2000'')])\<rparr>) [ex_resistor])
             \<and> (\<forall>did. stored_array srv2 did = stored_array ex_started did
                   \<and> stored_components srv2 did
                       = (if stored_array ex_started did = session_array ex_started ''c''
                          then session_components srv2 ''c'' else stored_components ex_started did)
                   \<and> (\<forall>c2 cfg2. designs ex_started did \<noteq> None \<longrightarrow>
                         session_components (startRealTimeSimulation c2 did cfg2 srv2) c2
                           = stored_components srv2 did)))"
    by blast
  then obtain srv2 where
    u: "updateComponentInSimulation ''c'' 2 [(''resistance'', JStr ''2000'')] ex_started = Inr srv2"
    and sc: "session_components srv2 ''c''
              = Some (replace_first 2 (ex_resistor\<lparr>properties := Some (Object_assign
                  [(''resistance'', JStr ''1000''), (''power'', JStr ''0.25'')]
                  [(''resistance'', JStr ''2000'')])\<rparr>) [ex_resistor])"
    and st: "stored_components srv2 ''d''
              = (if stored_array ex_started ''d'' = session_array ex_started ''c''
                 then session_components srv2 ''c'' else stored_components ex_started ''d'')"
    using f p by blast
  have "stored_components srv2 ''d''
          = Some [ex_resistor\<lparr>properties := Some [(''resistance'', JStr ''2000''), (''power'', JStr ''0.25'')]\<rparr>]"
    using st sc sh by (simp add: Object_assign_def ex_resistor_def)
  then show ?thesis
    using u f p sh ex_started_facts by simp
qed

text \<open>
  The next address is unused in the initial state and stays unused under every operation
  of the server.
\<close>

lemma wf_heap_init: "wf_heap init_server"
  by (simp add: wf_heap_def init_server_def)

lemma wf_heap_next: "wf_heap srv \<Longrightarrow> heap srv (fresh srv) = None"
  by (simp add: wf_heap_def)

lemma wf_heap_createDesign: "wf_heap srv \<Longrightarrow> wf_heap (createDesign did name comps conns srv)"
  by (simp add: wf_heap_def createDesign_def)

lemma wf_heap_updateDesign:
  "wf_heap srv \<Longrightarrow> updateDesign did name comps conns srv = Some srv' \<Longrightarrow> wf_heap srv'"
  by (auto simp add: wf_heap_def updateDesign_def Let_def split: option.splits)

lemma wf_heap_on_connection: "wf_heap srv \<Longrightarrow> wf_heap (on_connection c srv)"
  by (simp add: wf_heap_def on_connection_def)

lemma wf_heap_on_close: "wf_heap srv \<Longrightarrow> wf_heap (on_close c srv)"
  by (simp add: wf_heap_def on_close_def)

lemma wf_heap_stop: "wf_heap srv \<Longrightarrow> wf_heap (stopRealTimeSimulation c srv)"
  by (simp add: wf_heap_def stopRealTimeSimulation_def send_def Let_def split: option.splits)

lemma wf_heap_on_message: "wf_heap srv \<Longrightarrow> wf_heap (on_message c req srv)"
proof (cases req)
  case (Start_simulation did cfg)
  assume "wf_heap srv"
  then show ?thesis using Start_simulation
    by (auto simp add: wf_heap_def on_message_def handleWebSocketMessage_def
        startRealTimeSimulation_def send_def Let_def split: option.splits)
next
  case Stop_simulation
  assume "wf_heap srv"
  then show ?thesis using Stop_simulation wf_heap_stop [of srv c]
    by (simp add: on_message_def handleWebSocketMessage_def)
next
  case (Update_component k props)
  assume w: "wf_heap srv"
  have "heap srv a \<noteq> None \<Longrightarrow> a < fresh srv" for a
    using w by (auto simp add: wf_heap_def not_le [symmetric])
  then show ?thesis using Update_component w
    by (auto simp add: wf_heap_def on_message_def handleWebSocketMessage_def
        updateComponentInSimulation_def send_def Let_def split: option.splits sum.splits)
next
  case Other_request
  assume "wf_heap srv"
  then show ?thesis using Other_request
    by (simp add: on_message_def handleWebSocketMessage_def)
qed

lemma wf_heap_interval_fire:
  "wf_heap srv \<Longrightarrow> interval_fire t srv w = (Inr srv', w') \<Longrightarrow> wf_heap srv'"
  by (auto simp add: wf_heap_def interval_fire_def send_def Let_def
      split: option.splits if_splits prod.splits sum.splits)

lemma wf_heap_timeout_fire: "wf_heap srv \<Longrightarrow> wf_heap (timeout_fire t srv)"
  using wf_heap_stop [of "srv\<lparr>timeouts := (timeouts srv)(t := None)\<rparr>"]
  by (simp add: timeout_fire_def wf_heap_def split: option.splits)

text \<open>
  \<open>stopRealTimeSimulation\<close> on a client without a session changes nothing; on a client
  with a session it removes the session, clears its timer and its running flag; a second
  stop changes nothing more; a cleared timer does not fire.
\<close>

lemma stop_unknown_noop:
  "activeSimulations srv clientId = None \<Longrightarrow> stopRealTimeSimulation clientId srv = srv"
  by (simp add: stopRealTimeSimulation_def)

lemma stop_removes_session:
  "activeSimulations (stopRealTimeSimulation clientId srv) clientId = None"
  by (simp add: stopRealTimeSimulation_def send_def Let_def split: option.splits)

lemma stop_idempotent:
  "stopRealTimeSimulation clientId (stopRealTimeSimulation clientId srv)
     = stopRealTimeSimulation clientId srv"
  by (rule stop_unknown_noop) (rule stop_removes_session)

lemma stop_cancels_timer:
  assumes "activeSimulations srv clientId = Some sim" and "interval sim = Some t"
    and "simulators srv (sim_ref sim) = Some so"
  shows "intervals (stopRealTimeSimulation clientId srv) t = None"
    and "simulators (stopRealTimeSimulation clientId srv) (sim_ref sim) = Some (so\<lparr>obj_isRunning := False\<rparr>)"
  using assms by (simp_all add: stopRealTimeSimulation_def send_def Let_def)

lemma cleared_timer_does_not_fire:
  "intervals srv t = None \<Longrightarrow> interval_fire t srv w = (Inr srv, w)"
  by (simp add: interval_fire_def)

lemma interval_fire_delivers:
  assumes "intervals srv t = Some (c, a)" and "simulators srv a = Some so" and "obj_isRunning so"
    and "c \<in> clients srv" and "heap srv (obj_components so) = Some cs"
    and "\<forall>x\<in>set cs. ctype x = ''capacitor'' \<longrightarrow> properties x \<noteq> None"
  shows "\<exists>r srv' w'. interval_fire t srv w = (Inr srv', w')
           \<and> outbox srv' = outbox srv @ [(c, SimulationData r)]"
proof -
  have cs: "components (load srv so) = Some cs"
    using assms(5) by (simp add: load_def)
  obtain r w' where "simulate_body (load srv so) (timeStep (load srv so)) w = (Inr r, w')"
    using simulate_body_returns [OF cs assms(6)] by blast
  then show ?thesis
    using assms(1-4) by (simp add: interval_fire_def simulate_unfold send_def)
qed

lemma snapshots_of_append:
  "outbox srv' = outbox srv @ [(c, SimulationData r)] \<Longrightarrow>
     snapshots_of c srv' = snapshots_of c srv @ [r]"
  by (simp add: snapshots_of_def)

lemma ex_restarted_facts:
  "intervals ex_restarted 2 = Some (''c'', 1)"
  "intervals ex_restarted 5 = Some (''c'', 4)"
  "simulators ex_restarted 1 = Some \<lparr>obj_designId = ''d'', obj_components = 0, obj_connections = [],
       obj_isRunning = True, obj_timeStep = Fin 0\<rparr>"
  "simulators ex_restarted 4 = Some \<lparr>obj_designId = ''d'', obj_components = 0, obj_connections = [],
       obj_isRunning = True, obj_timeStep = Fin 0\<rparr>"
  "activeSimulations ex_restarted ''c'' = Some \<lparr>sim_ref = 4, interval = Some 5, sim_config = default_config\<rparr>"
  "heap ex_restarted 0 = Some [ex_resistor]"
  "clients ex_restarted = {''c''}"
  by (simp_all add: ex_restarted_def ex_started_def ex_server_def server_defs)

text \<open>
  C2, at the failing input: a client starts a session and starts again without stopping.
  \<open>startRealTimeSimulation\<close> overwrites the registry entry and clears nothing: the timer
  of the first session (handle 2) and the timer of the second (handle 5) are both active
  for the same client, both simulators are running, the registry only knows handle 5, and
  a firing of either timer sends a snapshot to the client.
\<close>

theorem restart_leaves_two_timers:
  "intervals ex_restarted 2 = Some (''c'', 1)
   \<and> intervals ex_restarted 5 = Some (''c'', 4)
   \<and> map_option obj_isRunning (simulators ex_restarted 1) = Some True
   \<and> map_option obj_isRunning (simulators ex_restarted 4) = Some True
   \<and> map_option interval (activeSimulations ex_restarted ''c'') = Some (Some 5)
   \<and> (\<exists>r srv' w'. interval_fire 2 ex_restarted w = (Inr srv', w')
          \<and> snapshots_of ''c'' srv' = snapshots_of ''c'' ex_restarted @ [r])
   \<and> (\<exists>r srv' w'. interval_fire 5 ex_restarted w = (Inr srv', w')
          \<and> snapshots_of ''c'' srv' = snapshots_of ''c'' ex_restarted @ [r])"
proof -
  have old: "\<exists>r srv' w'. interval_fire 2 ex_restarted w = (Inr srv', w')
           \<and> outbox srv' = outbox ex_restarted @ [(''c'', SimulationData r)]"
    by (rule interval_fire_delivers [OF ex_restarted_facts(1) ex_restarted_facts(3)])
       (auto simp add: ex_restarted_facts ex_resistor_def)
  have new: "\<exists>r srv' w'. interval_fire 5 ex_restarted w = (Inr srv', w')
           \<and> outbox srv' = outbox ex_restarted @ [(''c'', SimulationData r)]"
    by (rule interval_fire_delivers [OF ex_restarted_facts(2) ex_restarted_facts(4)])
       (auto simp add: ex_restarted_facts ex_resistor_def)
  have a: "\<exists>r srv' w'. interval_fire 2 ex_restarted w = (Inr srv', w')
          \<and> snapshots_of ''c'' srv' = snapshots_of ''c'' ex_restarted @ [r]"
    using old snapshots_of_append by blast
  have b: "\<exists>r srv' w'. interval_fire 5 ex_restarted w = (Inr srv', w')
          \<and> snapshots_of ''c'' srv' = snapshots_of ''c'' ex_restarted @ [r]"
    using new snapshots_of_append by blast
  have c: "intervals ex_restarted 2 = Some (''c'', 1)
      \<and> intervals ex_restarted 5 = Some (''c'', 4)
      \<and> map_option obj_isRunning (simulators ex_restarted 1) = Some True
      \<and> map_option obj_isRunning (simulators ex_restarted 4) = Some True
      \<and> map_option interval (activeSimulations ex_restarted ''c'') = Some (Some 5)"
    by (simp add: ex_restarted_def ex_started_def ex_server_def server_defs)
  show ?thesis
    using a b c by blast
qed

lemma ex_stopped_facts:
  "activeSimulations ex_stopped ''c'' = None"
  "intervals ex_stopped 5 = None"
  "intervals ex_stopped 2 = Some (''c'', 1)"
  "simulators ex_stopped 1 = Some \<lparr>obj_designId = ''d'', obj_components = 0, obj_connections = [],
       obj_isRunning = True, obj_timeStep = Fin 0\<rparr>"
  "heap ex_stopped 0 = Some [ex_resistor]"
  "clients ex_stopped = {''c''}"
  by (simp_all add: ex_stopped_def ex_restarted_def ex_started_def ex_server_def server_defs)

text \<open>
  C5, at the failing input: a client starts a session, starts again, and stops.
  \<open>stopRealTimeSimulation\<close> has removed the session from the registry, but the timer of
  the first session is still active and its simulator still running: its next firing
  sends one more snapshot to the client.
\<close>

theorem snapshot_delivered_after_stop:
  "activeSimulations ex_stopped ''c'' = None
   \<and> (\<exists>r srv' w'. interval_fire 2 ex_stopped w = (Inr srv', w')
          \<and> snapshots_of ''c'' srv' = snapshots_of ''c'' ex_stopped @ [r])"
proof -
  have "\<exists>r srv' w'. interval_fire 2 ex_stopped w = (Inr srv', w')
           \<and> outbox srv' = outbox ex_stopped @ [(''c'', SimulationData r)]"
    by (rule interval_fire_delivers [OF ex_stopped_facts(3) ex_stopped_facts(4)])
       (auto simp add: ex_stopped_facts ex_resistor_def)
  then show ?thesis
    using ex_stopped_facts(1) snapshots_of_append by blast
qed

text \<open>
  C3 as stated fails. After a client with an active session closes its connection the
  session is still in the registry, its timer is still active and its simulator is still
  running; an explicit stop in the same state removes the session, clears the timer and
  clears the running flag.
\<close>

theorem close_leaves_session_and_timer:
  "activeSimulations ex_closed ''c'' = Some \<lparr>sim_ref = 1, interval = Some 2, sim_config = default_config\<rparr>
   \<and> intervals ex_closed 2 = Some (''c'', 1)
   \<and> map_option obj_isRunning (simulators ex_closed 1) = Some True
   \<and> activeSimulations (stopRealTimeSimulation ''c'' ex_started) ''c'' = None
   \<and> intervals (stopRealTimeSimulation ''c'' ex_started) 2 = None
   \<and> map_option obj_isRunning (simulators (stopRealTimeSimulation ''c'' ex_started) 1) = Some False"
  by (simp add: ex_closed_def ex_started_def ex_server_def server_defs)

lemma tick_without_client_sends_nothing:
  assumes "c \<notin> clients srv1" and "intervals srv1 t = Some (c, a)"
    and "interval_fire t srv1 w = (Inr srv', w')"
  shows "outbox srv' = outbox srv1 \<and> c \<notin> clients srv'"
  using assms
  by (auto simp add: interval_fire_def split: option.splits if_splits prod.splits sum.splits)

text \<open>
  C3, as amended. Closing the connection of a client with an active session removes the
  client from the client map and nothing else: registry, timers and simulators are as
  before and nothing is sent. While the client is not in the client map, a firing of a
  timer of that client sends nothing (and leaves the client out of the map). When a
  duration timeout of that client fires, it performs the cleanup of a stop: the session is
  removed from the registry, its timer is cleared, its running flag is cleared; no stopped
  event is sent, the client being gone.
\<close>

theorem close_defers_cleanup_to_timeout:
  assumes "activeSimulations srv c = Some sim" and "interval sim = Some t"
    and "simulators srv (sim_ref sim) = Some so" and "timeouts srv t2 = Some c"
  shows "clients (on_close c srv) = clients srv - {c}
       \<and> activeSimulations (on_close c srv) = activeSimulations srv
       \<and> intervals (on_close c srv) = intervals srv
       \<and> simulators (on_close c srv) = simulators srv
       \<and> outbox (on_close c srv) = outbox srv
       \<and> (\<forall>srv1 t' a w srv' w'. c \<notin> clients srv1 \<and> intervals srv1 t' = Some (c, a)
              \<and> interval_fire t' srv1 w = (Inr srv', w')
              \<longrightarrow> outbox srv' = outbox srv1 \<and> c \<notin> clients srv')
       \<and> activeSimulations (timeout_fire t2 (on_close c srv)) c = None
       \<and> intervals (timeout_fire t2 (on_close c srv)) t = None
       \<and> simulators (timeout_fire t2 (on_close c srv)) (sim_ref sim) = Some (so\<lparr>obj_isRunning := False\<rparr>)
       \<and> outbox (timeout_fire t2 (on_close c srv)) = outbox srv"
proof -
  have frame: "clients (on_close c srv) = clients srv - {c}"
    "activeSimulations (on_close c srv) = activeSimulations srv"
    "intervals (on_close c srv) = intervals srv"
    "simulators (on_close c srv) = simulators srv"
    "outbox (on_close c srv) = outbox srv"
    by (simp_all add: on_close_def)
  have tick: "\<forall>srv1 t' a w srv' w'. c \<notin> clients srv1 \<and> intervals srv1 t' = Some (c, a)
              \<and> interval_fire t' srv1 w = (Inr srv', w')
              \<longrightarrow> outbox srv' = outbox srv1 \<and> c \<notin> clients srv'"
    using tick_without_client_sends_nothing by blast
  have stop: "activeSimulations (timeout_fire t2 (on_close c srv)) c = None"
    "intervals (timeout_fire t2 (on_close c srv)) t = None"
    "simulators (timeout_fire t2 (on_close c srv)) (sim_ref sim) = Some (so\<lparr>obj_isRunning := False\<rparr>)"
    "outbox (timeout_fire t2 (on_close c srv)) = outbox srv"
    using assms
    by (simp_all add: timeout_fire_def on_close_def stopRealTimeSimulation_def Let_def)
  show ?thesis
    using frame tick stop by blast
qed

theorem close_defers_cleanup_to_timeout_witness:
  "activeSimulations ex_started ''c'' = Some \<lparr>sim_ref = 1, interval = Some 2, sim_config = default_config\<rparr>
   \<and> simulators ex_started 1 = Some \<lparr>obj_designId = ''d'', obj_components = 0, obj_connections = [],
        obj_isRunning = True, obj_timeStep = Fin 0\<rparr>
   \<and> timeouts ex_started 3 = Some ''c''
   \<and> activeSimulations (on_close ''c'' ex_started) ''c''
       = Some \<lparr>sim_ref = 1, interval = Some 2, sim_config = default_config\<rparr>
   \<and> intervals (on_close ''c'' ex_started) 2 = Some (''c'', 1)
   \<and> activeSimulations (timeout_fire 3 (on_close ''c'' ex_started)) ''c'' = None
   \<and> intervals (timeout_fire 3 (on_close ''c'' ex_started)) 2 = None"
  using close_defers_cleanup_to_timeout
      [of ex_started "''c''" "\<lparr>sim_ref = 1, interval = Some 2, sim_config = default_config\<rparr>" 2
          "\<lparr>obj_designId = ''d'', obj_components = 0, obj_connections = [],
            obj_isRunning = True, obj_timeStep = Fin 0\<rparr>" 3]
    ex_started_facts
  by simp

end
